theory Spec2Isabelle
  imports Complex_Main
begin

section \<open>Python values used by the bot\<close>

text \<open>
  The bot is one Python module, \<^verbatim>\<open>main.py\<close>: a python-telegram-bot conversation with
  fourteen handlers, three paginated menus over sheets of a remote workbook, and a
  finalizer that writes the order to a spreadsheet. Every handler is embedded as a function
  from the incoming update and the process state to the new process state and the
  handler's outcome (the state it returns, or the exception it raises).
\<close>

datatype pyerr = KeyError | IndexError | ValueError | TypeError | AttributeError
  | UnboundLocalError | TransportError

text \<open>\<^verbatim>\<open>str(index)\<close> for a Python int, as the f-strings of the callback tokens use it.\<close>

definition digit_char :: "nat \<Rightarrow> char" where
  "digit_char d =
     (if d = 0 then CHR ''0'' else if d = 1 then CHR ''1'' else if d = 2 then CHR ''2''
      else if d = 3 then CHR ''3'' else if d = 4 then CHR ''4'' else if d = 5 then CHR ''5''
      else if d = 6 then CHR ''6'' else if d = 7 then CHR ''7'' else if d = 8 then CHR ''8''
      else CHR ''9'')"

function nat_str :: "nat \<Rightarrow> string" where
  "nat_str n = (if n < 10 then [digit_char n] else nat_str (n div 10) @ [digit_char (n mod 10)])"
  by pat_completeness auto
termination
  by (relation "measure id") auto

declare nat_str.simps [simp del]

definition py_str :: "int \<Rightarrow> string" where
  "py_str i = (if i < 0 then CHR ''-'' # nat_str (nat (- i)) else nat_str (nat i))"

text \<open>
  \<^verbatim>\<open>int(s)\<close> on a string: white space around the number is stripped, one sign is
  allowed, and the rest must be decimal digits, with single underscores allowed between
  two digits. A character of the model is a code point below 256. Of these Python strips
  tab, line feed, vertical tab, form feed, carriage return, space, U+0085 and U+00A0 (the
  separators U+001C to U+001F are not stripped), and only the ASCII digits are decimal.
\<close>

definition digit_val :: "char \<Rightarrow> nat option" where
  "digit_val = map_of [(CHR ''0'', 0), (CHR ''1'', 1), (CHR ''2'', 2), (CHR ''3'', 3),
     (CHR ''4'', 4), (CHR ''5'', 5), (CHR ''6'', 6), (CHR ''7'', 7), (CHR ''8'', 8),
     (CHR ''9'', 9)]"

text \<open>The flag says whether the character before was a digit: an underscore must follow a
  digit and be followed by one, and the number must end in a digit.\<close>

fun digits_val :: "nat \<Rightarrow> bool \<Rightarrow> string \<Rightarrow> nat option" where
  "digits_val acc after_digit [] = (if after_digit then Some acc else None)"
| "digits_val acc after_digit (c # cs) =
     (if c = CHR ''_'' then
        (if after_digit \<and> cs \<noteq> [] then digits_val acc False cs else None)
      else case digit_val c of
             None \<Rightarrow> None
           | Some d \<Rightarrow> digits_val (10 * acc + d) True cs)"

definition is_space :: "char \<Rightarrow> bool" where
  "is_space c = (c \<in> set [CHR 0x09, CHR 0x0A, CHR 0x0B, CHR 0x0C, CHR 0x0D, CHR '' '',
                            CHR 0x85, CHR 0xA0])"

definition strip :: "string \<Rightarrow> string" where
  "strip s = rev (dropWhile is_space (rev (dropWhile is_space s)))"

definition unsigned_int :: "string \<Rightarrow> pyerr + int" where
  "unsigned_int s =
     (case digits_val 0 False s of None \<Rightarrow> Inl ValueError | Some n \<Rightarrow> Inr (int n))"

definition py_int :: "string \<Rightarrow> pyerr + int" where
  "py_int s =
     (case strip s of
        [] \<Rightarrow> Inl ValueError
      | c # cs \<Rightarrow>
          if c = CHR ''-'' then map_sum id uminus (unsigned_int cs)
          else if c = CHR ''+'' then unsigned_int cs
          else unsigned_int (c # cs))"

text \<open>\<^verbatim>\<open>s.split(sep)\<close>: the pieces between the separators, always at least one.\<close>

fun split_on :: "char \<Rightarrow> string \<Rightarrow> string list" where
  "split_on sep [] = [[]]"
| "split_on sep (c # cs) =
     (if c = sep then [] # split_on sep cs
      else case split_on sep cs of [] \<Rightarrow> [[c]] | piece # pieces \<Rightarrow> (c # piece) # pieces)"

text \<open>\<^verbatim>\<open>int(query.data.split('_')[1])\<close>, the index every selection handler reads.\<close>

definition token_index :: "string \<Rightarrow> pyerr + int" where
  "token_index d =
     (case split_on CHR ''_'' d of
        _ # piece # _ \<Rightarrow> py_int piece
      | _ \<Rightarrow> Inl IndexError)"

text \<open>\<^verbatim>\<open>re.match(r'^prefix', data)\<close> of the callback patterns: the data starts with the prefix.\<close>

definition starts_with :: "string \<Rightarrow> string \<Rightarrow> bool" where
  "starts_with prefix d = (take (length prefix) d = prefix)"

section \<open>Reference sheets\<close>

text \<open>
  A cell of a sheet read by \<^verbatim>\<open>pd.read_excel\<close> is text, a number or an empty cell (NaN).
  A sheet that has a row has a first column, so a row is its first cell and the cells
  after it; a data frame is the list of its rows and \<^verbatim>\<open>len\<close> counts them.
\<close>

datatype cell = Str string | Num int | NaN

datatype row = Row (first_col: cell) (other_cols: "cell list")

type_synonym dataframe = "row list"

text \<open>\<^verbatim>\<open>df.iloc[i, j]\<close>: a negative row index counts from the end; out of bounds raises.\<close>

definition iloc :: "dataframe \<Rightarrow> int \<Rightarrow> nat \<Rightarrow> pyerr + cell" where
  "iloc df i j =
     (let n = int (length df);
          k = (if i < 0 then n + i else i)
      in if 0 \<le> k \<and> k < n then
           (case j of
              0 \<Rightarrow> Inr (first_col (df ! nat k))
            | Suc j' \<Rightarrow>
                if j' < length (other_cols (df ! nat k))
                then Inr (other_cols (df ! nat k) ! j') else Inl IndexError)
         else Inl IndexError)"

text \<open>\<^verbatim>\<open>int(recipient_id)\<close> on a cell.\<close>

fun int_of_cell :: "cell \<Rightarrow> pyerr + int" where
  "int_of_cell (Str s) = py_int s"
| "int_of_cell (Num n) = Inr n"
| "int_of_cell NaN = Inl ValueError"

text \<open>
  \<^verbatim>\<open>not excel_data['stores']\<close>: the truth value of \<^verbatim>\<open>None\<close> is false, and asking a
  pandas data frame for its truth value raises \<^verbatim>\<open>ValueError\<close>, whatever it holds.
\<close>

fun py_not :: "dataframe option \<Rightarrow> pyerr + bool" where
  "py_not None = Inr True"
| "py_not (Some df) = Inl ValueError"

section \<open>Conversation data\<close>

datatype conv_state = START | NAME | CHOOSE_STORE | SHOP_ID | OWNER_NAME | OWNER_PHONE
  | PRODUCT_IMAGE | PRODUCT_CODE | PRODUCT_COLOR | BADGE_QUANTITY
  | PRODUCT_SIZE_RANGE | PRODUCT_PRICE | CONFIRM_PRODUCT | NEXT_ACTION
  | CHOOSE_RECIPIENT | END

definition ITEMS_PER_PAGE :: int where
  "ITEMS_PER_PAGE = 10"

text \<open>A product dict: a key that is not set is \<open>None\<close>, and reading it raises \<^verbatim>\<open>KeyError\<close>.\<close>

record product =
  image_file_id :: "string option"
  code :: "string option"
  color :: "cell option"
  badge_quantity :: "string option"
  size_range :: "string option"
  price :: "string option"

definition empty_product :: product where
  "empty_product = \<lparr>image_file_id = None, code = None, color = None,
     badge_quantity = None, size_range = None, price = None\<rparr>"

text \<open>An entry of \<^verbatim>\<open>user_data_store\<close>: the answers of one user and the confirmed products.\<close>

record session =
  name :: "string option"
  store :: "cell option"
  shop_id :: "string option"
  owner_name :: "string option"
  owner_phone :: "string option"
  products :: "product list option"

definition empty_session :: session where
  "empty_session = \<lparr>name = None, store = None, shop_id = None, owner_name = None,
     owner_phone = None, products = None\<rparr>"

text \<open>A row of the order data frame, one per product.\<close>

record order_row =
  col_user_name :: string
  col_store :: cell
  col_shop_id :: string
  col_owner_name :: string
  col_owner_phone :: string
  col_product_code :: string
  col_product_color :: cell
  col_badge_quantity :: string
  col_size_range :: string
  col_price :: string
  col_image_file_id :: string

text \<open>
  \<^verbatim>\<open>context.user_data\<close> of one user: the second store, which the library keeps for the
  user across conversations. It holds the three page indices, the draft and the order
  data frame.
\<close>

record context_data =
  stores_page :: "int option"
  colors_page :: "int option"
  recipients_page :: "int option"
  current_product :: "product option"
  order_dataframe :: "order_row list option"

definition empty_context :: context_data where
  "empty_context = \<lparr>stores_page = None, colors_page = None, recipients_page = None,
     current_product = None, order_dataframe = None\<rparr>"

record cache =
  stores :: "dataframe option"
  colors :: "dataframe option"
  recipients :: "dataframe option"

section \<open>Messages\<close>

text \<open>
  The texts the bot sends are fixed templates; a message is the template and the values
  its f-string inserts. Buttons carry their label and their callback token.
\<close>

datatype label = Item cell | Previous | Next | Skip | Yes | No | ChangeColor | StartNewProduct

datatype button = Button label string

datatype markup = NoMarkup | Inline "button list list" | ReplyKeyboard "string list list"

datatype text_msg =
    Welcome | Loading | LoadFailed
  | SelectStore int int | SelectedStore cell
  | AskOwnerName | AskOwnerPhone | AskProductImage | AskProductCode
  | SelectColor int int | SelectedColor cell
  | AskSizeRange | AskPrice
  | ProductDetails string cell string string string
  | WhatNext | WhatChange | NewProductImage | SendProductImage
  | SelectRecipientIntro | SelectRecipient int int
  | OrderFileCaption | NewOrderFrom string cell
  | OrderSentTo cell | CouldNotSend cell
  | ThankYou | Cancelled

datatype effect =
    Answer
  | ReplyText text_msg markup
  | ReplyPhoto string text_msg markup
  | EditMessageText text_msg markup
  | DeleteMessage
  | SendMessage nat text_msg markup
  | SendDocument int string text_msg
  | LogError
  | LogException pyerr

section \<open>Updates and the process state\<close>

datatype update = Command string | TextMessage string | PhotoMessage "string list"
  | CallbackQuery string

text \<open>
  An event is an update of one user together with what the outside world answers while
  the update is handled: the three sheets the remote workbook yields if it is fetched
  (\<open>None\<close> when the fetch or the parse fails), and whether the order file can be
  delivered to the requester and to the recipient. All other calls of the transport
  (answering, replying, editing, deleting, plain messages) are taken to succeed.
\<close>

record event =
  effective_user :: nat
  payload :: update
  remote :: "(dataframe \<times> dataframe \<times> dataframe) option"
  requester_delivery :: bool
  recipient_delivery :: bool

record world =
  excel_data :: cache
  user_data_store :: "nat \<rightharpoonup> session"
  user_data :: "nat \<Rightarrow> context_data"
  conversations :: "nat \<rightharpoonup> conv_state"
  files :: "string \<rightharpoonup> order_row list"
  outbox :: "(nat \<times> effect) list"
  fetches :: nat

definition initial_world :: world where
  "initial_world = \<lparr>excel_data = \<lparr>stores = None, colors = None, recipients = None\<rparr>,
     user_data_store = Map.empty, user_data = (\<lambda>_. empty_context),
     conversations = Map.empty, files = Map.empty, outbox = [], fetches = 0\<rparr>"

datatype outcome = Returned "conv_state option" | Raised pyerr

definition emit :: "event \<Rightarrow> effect \<Rightarrow> world \<Rightarrow> world" where
  "emit ev out w = w\<lparr>outbox := outbox w @ [(effective_user ev, out)]\<rparr>"

definition set_context :: "event \<Rightarrow> context_data \<Rightarrow> world \<Rightarrow> world" where
  "set_context ev c w = w\<lparr>user_data := (user_data w)(effective_user ev := c)\<rparr>"

definition set_session :: "event \<Rightarrow> session \<Rightarrow> world \<Rightarrow> world" where
  "set_session ev s w = w\<lparr>user_data_store := (user_data_store w)(effective_user ev \<mapsto> s)\<rparr>"

fun message_text :: "update \<Rightarrow> string option" where
  "message_text (TextMessage s) = Some s"
| "message_text (Command c) = Some (CHR ''/'' # c)"
| "message_text _ = None"

fun is_message :: "update \<Rightarrow> bool" where
  "is_message (CallbackQuery d) = False"
| "is_message _ = True"

fun callback_data :: "update \<Rightarrow> string option" where
  "callback_data (CallbackQuery d) = Some d"
| "callback_data _ = None"

fun photo_sizes :: "update \<Rightarrow> string list" where
  "photo_sizes (PhotoMessage sizes) = sizes"
| "photo_sizes _ = []"

section \<open>The paginated menus\<close>

text \<open>
  The three \<^verbatim>\<open>show_*_page\<close> functions share their arithmetic: the page count is the
  ceiling division of the source, the rows of a page are \<^verbatim>\<open>range(start_idx, end_idx)\<close>,
  and the navigation row offers Previous after the first page and Next before the last.
\<close>

definition total_pages :: "int \<Rightarrow> int" where
  "total_pages total_items = (total_items + ITEMS_PER_PAGE - 1) div ITEMS_PER_PAGE"

definition page_range :: "int \<Rightarrow> int \<Rightarrow> int list" where
  "page_range current_page total_items =
     (let start_idx = current_page * ITEMS_PER_PAGE;
          end_idx = min (start_idx + ITEMS_PER_PAGE) total_items
      in [start_idx .. end_idx - 1])"

fun item_rows :: "string \<Rightarrow> dataframe \<Rightarrow> int list \<Rightarrow> pyerr + button list list" where
  "item_rows prefix df [] = Inr []"
| "item_rows prefix df (index # rest) =
     (case iloc df index 0 of
        Inl e \<Rightarrow> Inl e
      | Inr item_name \<Rightarrow>
          (case item_rows prefix df rest of
             Inl e \<Rightarrow> Inl e
           | Inr keyboard \<Rightarrow>
               Inr ([Button (Item item_name) (prefix @ ''_'' @ py_str index)] # keyboard)))"

text \<open>The loop over recipients also reads the second column of each row.\<close>

fun recipient_rows :: "dataframe \<Rightarrow> int list \<Rightarrow> pyerr + button list list" where
  "recipient_rows df [] = Inr []"
| "recipient_rows df (index # rest) =
     (case iloc df index 0 of
        Inl e \<Rightarrow> Inl e
      | Inr recipient_name \<Rightarrow>
          (case iloc df index 1 of
             Inl e \<Rightarrow> Inl e
           | Inr recipient_id \<Rightarrow>
               (case recipient_rows df rest of
                  Inl e \<Rightarrow> Inl e
                | Inr keyboard \<Rightarrow>
                    Inr ([Button (Item recipient_name) (''recipient_'' @ py_str index)]
                         # keyboard))))"

definition nav_buttons :: "string \<Rightarrow> int \<Rightarrow> int \<Rightarrow> button list" where
  "nav_buttons prefix current_page pages =
     (if current_page > 0 then [Button Previous (prefix @ ''_prev_page'')] else []) @
     (if current_page < pages - 1 then [Button Next (prefix @ ''_next_page'')] else [])"

definition with_nav :: "button list list \<Rightarrow> button list \<Rightarrow> button list list" where
  "with_nav keyboard nav = (if nav = [] then keyboard else keyboard @ [nav])"

text \<open>A page is sent as an edit of the menu message on a button press, as a reply otherwise.\<close>

definition send_page :: "event \<Rightarrow> text_msg \<Rightarrow> markup \<Rightarrow> world \<Rightarrow> world" where
  "send_page ev msg m w =
     (if is_message (payload ev) then emit ev (ReplyText msg m) w
      else emit ev (EditMessageText msg m) w)"

definition page_or_zero :: "int option \<Rightarrow> int" where
  "page_or_zero p = (case p of None \<Rightarrow> 0 | Some current_page \<Rightarrow> current_page)"

definition show_stores_page :: "event \<Rightarrow> world \<Rightarrow> pyerr + world" where
  "show_stores_page ev w =
     (let current_page = page_or_zero (stores_page (user_data w (effective_user ev)))
      in case stores (excel_data w) of
           None \<Rightarrow> Inl TypeError
         | Some df \<Rightarrow>
             let total_stores = int (length df);
                 pages = total_pages total_stores
             in case item_rows ''store'' df (page_range current_page total_stores) of
                  Inl e \<Rightarrow> Inl e
                | Inr keyboard \<Rightarrow>
                    Inr (send_page ev (SelectStore (current_page + 1) pages)
                          (Inline (with_nav keyboard (nav_buttons ''store'' current_page pages)))
                          w))"

definition show_colors_page :: "event \<Rightarrow> world \<Rightarrow> pyerr + world" where
  "show_colors_page ev w =
     (let current_page = page_or_zero (colors_page (user_data w (effective_user ev)))
      in case colors (excel_data w) of
           None \<Rightarrow> Inl TypeError
         | Some df \<Rightarrow>
             let total_colors = int (length df);
                 pages = total_pages total_colors
             in case item_rows ''color'' df (page_range current_page total_colors) of
                  Inl e \<Rightarrow> Inl e
                | Inr keyboard \<Rightarrow>
                    Inr (send_page ev (SelectColor (current_page + 1) pages)
                          (Inline (with_nav keyboard (nav_buttons ''color'' current_page pages)))
                          w))"

definition show_recipients_page :: "event \<Rightarrow> world \<Rightarrow> pyerr + world" where
  "show_recipients_page ev w =
     (let current_page = page_or_zero (recipients_page (user_data w (effective_user ev)))
      in case recipients (excel_data w) of
           None \<Rightarrow> Inl TypeError
         | Some df \<Rightarrow>
             let total_recipients = int (length df);
                 pages = total_pages total_recipients
             in case recipient_rows df (page_range current_page total_recipients) of
                  Inl e \<Rightarrow> Inl e
                | Inr keyboard \<Rightarrow>
                    Inr (send_page ev (SelectRecipient (current_page + 1) pages)
                          (Inline (with_nav keyboard
                                     (nav_buttons ''recipient'' current_page pages)
                                   @ [[Button Skip ''recipient_skip'']]))
                          w))"

section \<open>Loading the reference data\<close>

text \<open>
  \<^verbatim>\<open>load_excel_data\<close> asks the remote source once per call. Every exception is caught,
  logged and turned into \<open>False\<close>; the cache is written only after all three sheets
  are read, so a failed load leaves it as it was.
\<close>

definition load_excel_data :: "event \<Rightarrow> world \<Rightarrow> world \<times> bool" where
  "load_excel_data ev w =
     (let w1 = w\<lparr>fetches := fetches w + 1\<rparr>
      in case remote ev of
           None \<Rightarrow> (emit ev LogError w1, False)
         | Some (stores_df, colors_df, recipients_df) \<Rightarrow>
             (w1\<lparr>excel_data := \<lparr>stores = Some stores_df, colors = Some colors_df,
                                 recipients = Some recipients_df\<rparr>\<rparr>, True))"

section \<open>The handlers up to the first product\<close>

text \<open>
  A handler reads and writes two stores: \<^verbatim>\<open>user_data_store[user_id]\<close> (the session)
  and \<^verbatim>\<open>context.user_data\<close>. Both are dicts that are changed in place, so what a
  handler wrote before it raises stays written; the model returns the state reached
  together with the exception.
\<close>

definition start :: "event \<Rightarrow> world \<Rightarrow> world \<times> outcome" where
  "start ev w =
     (let w1 = set_session ev empty_session w
      in if is_message (payload ev)
         then (emit ev (ReplyText Welcome NoMarkup) w1, Returned (Some NAME))
         else (w1, Raised AttributeError))"

definition process_name :: "event \<Rightarrow> world \<Rightarrow> world \<times> outcome" where
  "process_name ev w =
     (case message_text (payload ev) of
        None \<Rightarrow> (w, Raised AttributeError)
      | Some text \<Rightarrow>
     (case user_data_store w (effective_user ev) of
        None \<Rightarrow> (w, Raised KeyError)
      | Some s \<Rightarrow>
          let w1 = set_session ev (s\<lparr>name := Some text\<rparr>) w;
              w2 = emit ev (ReplyText Loading NoMarkup) w1
          in (case py_not (stores (excel_data w2)) of
                Inl e \<Rightarrow> (w2, Raised e)
              | Inr not_stores \<Rightarrow>
                  let (w3, success) =
                        (if not_stores \<or> stores (excel_data w2) = None
                         then load_excel_data ev w2 else (w2, True))
                  in if \<not> success
                     then (emit ev (ReplyText LoadFailed NoMarkup) w3, Returned (Some END))
                     else
                       let c = user_data w3 (effective_user ev);
                           w4 = set_context ev (c\<lparr>stores_page := Some 0\<rparr>) w3
                       in (case show_stores_page ev w4 of
                             Inl e \<Rightarrow> (w4, Raised e)
                           | Inr w5 \<Rightarrow> (w5, Returned (Some CHOOSE_STORE))))))"

definition store_choice :: "event \<Rightarrow> world \<Rightarrow> world \<times> outcome" where
  "store_choice ev w =
     (case callback_data (payload ev) of
        None \<Rightarrow> (w, Raised AttributeError)
      | Some d \<Rightarrow>
          let w1 = emit ev Answer w;
              c = user_data w1 (effective_user ev)
          in if d = ''store_prev_page'' then
               (case stores_page c of
                  None \<Rightarrow> (w1, Raised KeyError)
                | Some p \<Rightarrow>
                    let w2 = set_context ev (c\<lparr>stores_page := Some (p - 1)\<rparr>) w1
                    in (case show_stores_page ev w2 of
                          Inl e \<Rightarrow> (w2, Raised e)
                        | Inr w3 \<Rightarrow> (w3, Returned (Some CHOOSE_STORE))))
             else if d = ''store_next_page'' then
               (case stores_page c of
                  None \<Rightarrow> (w1, Raised KeyError)
                | Some p \<Rightarrow>
                    let w2 = set_context ev (c\<lparr>stores_page := Some (p + 1)\<rparr>) w1
                    in (case show_stores_page ev w2 of
                          Inl e \<Rightarrow> (w2, Raised e)
                        | Inr w3 \<Rightarrow> (w3, Returned (Some CHOOSE_STORE))))
             else
               (case token_index d of
                  Inl e \<Rightarrow> (w1, Raised e)
                | Inr store_index \<Rightarrow>
               (case stores (excel_data w1) of
                  None \<Rightarrow> (w1, Raised AttributeError)
                | Some df \<Rightarrow>
               (case iloc df store_index 0 of
                  Inl e \<Rightarrow> (w1, Raised e)
                | Inr store_name \<Rightarrow>
               (case user_data_store w1 (effective_user ev) of
                  None \<Rightarrow> (w1, Raised KeyError)
                | Some s \<Rightarrow>
                    let w2 = set_session ev (s\<lparr>store := Some store_name\<rparr>) w1
                    in (emit ev (EditMessageText (SelectedStore store_name) NoMarkup) w2,
                        Returned (Some SHOP_ID)))))))"

definition process_shop_id :: "event \<Rightarrow> world \<Rightarrow> world \<times> outcome" where
  "process_shop_id ev w =
     (case message_text (payload ev) of
        None \<Rightarrow> (w, Raised AttributeError)
      | Some text \<Rightarrow>
     (case user_data_store w (effective_user ev) of
        None \<Rightarrow> (w, Raised KeyError)
      | Some s \<Rightarrow>
          (emit ev (ReplyText AskOwnerName NoMarkup) (set_session ev (s\<lparr>shop_id := Some text\<rparr>) w),
           Returned (Some OWNER_NAME))))"

definition process_owner_name :: "event \<Rightarrow> world \<Rightarrow> world \<times> outcome" where
  "process_owner_name ev w =
     (case message_text (payload ev) of
        None \<Rightarrow> (w, Raised AttributeError)
      | Some text \<Rightarrow>
     (case user_data_store w (effective_user ev) of
        None \<Rightarrow> (w, Raised KeyError)
      | Some s \<Rightarrow>
          (emit ev (ReplyText AskOwnerPhone NoMarkup)
             (set_session ev (s\<lparr>owner_name := Some text\<rparr>) w),
           Returned (Some OWNER_PHONE))))"

text \<open>The products list is created here only when the session has none yet.\<close>

definition process_owner_phone :: "event \<Rightarrow> world \<Rightarrow> world \<times> outcome" where
  "process_owner_phone ev w =
     (case message_text (payload ev) of
        None \<Rightarrow> (w, Raised AttributeError)
      | Some text \<Rightarrow>
     (case user_data_store w (effective_user ev) of
        None \<Rightarrow> (w, Raised KeyError)
      | Some s \<Rightarrow>
          let s1 = s\<lparr>owner_phone := Some text\<rparr>;
              s2 = (if products s1 = None then s1\<lparr>products := Some []\<rparr> else s1)
          in (emit ev (ReplyText AskProductImage NoMarkup) (set_session ev s2 w),
              Returned (Some PRODUCT_IMAGE))))"

section \<open>The product sub-flow\<close>

text \<open>\<^verbatim>\<open>update.message.photo[-1]\<close> is the largest size of the photo.\<close>

definition process_product_image :: "event \<Rightarrow> world \<Rightarrow> world \<times> outcome" where
  "process_product_image ev w =
     (if \<not> is_message (payload ev) then (w, Raised AttributeError)
      else if photo_sizes (payload ev) = [] then (w, Raised IndexError)
      else
        let file_id = last (photo_sizes (payload ev));
            product = empty_product\<lparr>image_file_id := Some file_id\<rparr>;
            c = user_data w (effective_user ev);
            w1 = set_context ev (c\<lparr>current_product := Some product\<rparr>) w
        in (emit ev (ReplyText AskProductCode NoMarkup) w1, Returned (Some PRODUCT_CODE)))"

definition process_product_code :: "event \<Rightarrow> world \<Rightarrow> world \<times> outcome" where
  "process_product_code ev w =
     (case message_text (payload ev) of
        None \<Rightarrow> (w, Raised AttributeError)
      | Some text \<Rightarrow>
          let c = user_data w (effective_user ev)
          in (case current_product c of
                None \<Rightarrow> (w, Raised KeyError)
              | Some product \<Rightarrow>
                  let w1 = set_context ev
                             (c\<lparr>current_product := Some (product\<lparr>code := Some text\<rparr>),
                                colors_page := Some 0\<rparr>) w
                  in (case show_colors_page ev w1 of
                        Inl e \<Rightarrow> (w1, Raised e)
                      | Inr w2 \<Rightarrow> (w2, Returned (Some PRODUCT_COLOR)))))"

definition color_choice :: "event \<Rightarrow> world \<Rightarrow> world \<times> outcome" where
  "color_choice ev w =
     (case callback_data (payload ev) of
        None \<Rightarrow> (w, Raised AttributeError)
      | Some d \<Rightarrow>
          let w1 = emit ev Answer w;
              c = user_data w1 (effective_user ev)
          in if d = ''color_prev_page'' then
               (case colors_page c of
                  None \<Rightarrow> (w1, Raised KeyError)
                | Some p \<Rightarrow>
                    let w2 = set_context ev (c\<lparr>colors_page := Some (p - 1)\<rparr>) w1
                    in (case show_colors_page ev w2 of
                          Inl e \<Rightarrow> (w2, Raised e)
                        | Inr w3 \<Rightarrow> (w3, Returned (Some PRODUCT_COLOR))))
             else if d = ''color_next_page'' then
               (case colors_page c of
                  None \<Rightarrow> (w1, Raised KeyError)
                | Some p \<Rightarrow>
                    let w2 = set_context ev (c\<lparr>colors_page := Some (p + 1)\<rparr>) w1
                    in (case show_colors_page ev w2 of
                          Inl e \<Rightarrow> (w2, Raised e)
                        | Inr w3 \<Rightarrow> (w3, Returned (Some PRODUCT_COLOR))))
             else
               (case token_index d of
                  Inl e \<Rightarrow> (w1, Raised e)
                | Inr color_index \<Rightarrow>
               (case colors (excel_data w1) of
                  None \<Rightarrow> (w1, Raised AttributeError)
                | Some df \<Rightarrow>
               (case iloc df color_index 0 of
                  Inl e \<Rightarrow> (w1, Raised e)
                | Inr color_name \<Rightarrow>
               (case current_product c of
                  None \<Rightarrow> (w1, Raised KeyError)
                | Some product \<Rightarrow>
                    let w2 = set_context ev
                               (c\<lparr>current_product := Some (product\<lparr>color := Some color_name\<rparr>)\<rparr>)
                               w1
                    in (emit ev (EditMessageText (SelectedColor color_name) NoMarkup) w2,
                        Returned (Some BADGE_QUANTITY)))))))"

definition process_badge_quantity :: "event \<Rightarrow> world \<Rightarrow> world \<times> outcome" where
  "process_badge_quantity ev w =
     (case message_text (payload ev) of
        None \<Rightarrow> (w, Raised AttributeError)
      | Some text \<Rightarrow>
          let c = user_data w (effective_user ev)
          in (case current_product c of
                None \<Rightarrow> (w, Raised KeyError)
              | Some product \<Rightarrow>
                  let w1 = set_context ev
                             (c\<lparr>current_product := Some (product\<lparr>badge_quantity := Some text\<rparr>)\<rparr>)
                             w
                  in (emit ev (ReplyText AskSizeRange NoMarkup) w1,
                      Returned (Some PRODUCT_SIZE_RANGE))))"

definition process_size_range :: "event \<Rightarrow> world \<Rightarrow> world \<times> outcome" where
  "process_size_range ev w =
     (case message_text (payload ev) of
        None \<Rightarrow> (w, Raised AttributeError)
      | Some text \<Rightarrow>
          let c = user_data w (effective_user ev)
          in (case current_product c of
                None \<Rightarrow> (w, Raised KeyError)
              | Some product \<Rightarrow>
                  let w1 = set_context ev
                             (c\<lparr>current_product := Some (product\<lparr>size_range := Some text\<rparr>)\<rparr>)
                             w
                  in (emit ev (ReplyText AskPrice NoMarkup) w1,
                      Returned (Some PRODUCT_PRICE))))"

text \<open>
  The confirmation message formats code, colour, badge quantity, size range and price of
  the draft, so a draft that lacks one of them raises \<^verbatim>\<open>KeyError\<close> here.
\<close>

definition confirmation_message :: "product \<Rightarrow> pyerr + text_msg" where
  "confirmation_message product =
     (case (code product, color product, badge_quantity product, size_range product,
            price product) of
        (Some cd, Some cl, Some bq, Some sr, Some pr) \<Rightarrow> Inr (ProductDetails cd cl bq sr pr)
      | _ \<Rightarrow> Inl KeyError)"

definition yes_no_keyboard :: markup where
  "yes_no_keyboard = Inline [[Button Yes ''confirm_yes'', Button No ''confirm_no'']]"

definition process_price :: "event \<Rightarrow> world \<Rightarrow> world \<times> outcome" where
  "process_price ev w =
     (case message_text (payload ev) of
        None \<Rightarrow> (w, Raised AttributeError)
      | Some text \<Rightarrow>
          let c = user_data w (effective_user ev)
          in (case current_product c of
                None \<Rightarrow> (w, Raised KeyError)
              | Some product0 \<Rightarrow>
                  let product = product0\<lparr>price := Some text\<rparr>;
                      w1 = set_context ev (c\<lparr>current_product := Some product\<rparr>) w
                  in (case confirmation_message product of
                        Inl e \<Rightarrow> (w1, Raised e)
                      | Inr msg \<Rightarrow>
                          (case image_file_id product of
                             Some photo \<Rightarrow>
                               (emit ev (ReplyPhoto photo msg yes_no_keyboard) w1,
                                Returned (Some CONFIRM_PRODUCT))
                           | None \<Rightarrow>
                               (emit ev (ReplyText msg yes_no_keyboard) w1,
                                Returned (Some CONFIRM_PRODUCT))))))"

section \<open>Confirmation and the next action\<close>

definition next_action_keyboard :: markup where
  "next_action_keyboard = ReplyKeyboard [[''Add same product with different color''],
     [''Add new product''], [''Save to file'']]"

definition edit_keyboard :: markup where
  "edit_keyboard = Inline [[Button ChangeColor ''edit_color''],
     [Button StartNewProduct ''edit_new'']]"

text \<open>
  In the \<^verbatim>\<open>edit_new\<close> branch the local \<^verbatim>\<open>reply_markup\<close> is read but was never
  assigned: the draft is cleared, the message is deleted, and building the arguments of
  \<^verbatim>\<open>send_message\<close> raises \<^verbatim>\<open>UnboundLocalError\<close>. A token that matches none of the
  four branches falls off the end of the function, which returns \<^verbatim>\<open>None\<close>.
\<close>

definition confirm_product :: "event \<Rightarrow> world \<Rightarrow> world \<times> outcome" where
  "confirm_product ev w =
     (case callback_data (payload ev) of
        None \<Rightarrow> (w, Raised AttributeError)
      | Some d \<Rightarrow>
          let w1 = emit ev Answer w;
              user_id = effective_user ev
          in if d = ''confirm_yes'' then
               (case user_data_store w1 user_id of
                  None \<Rightarrow> (w1, Raised KeyError)
                | Some s0 \<Rightarrow>
                    let s = (if products s0 = None then s0\<lparr>products := Some []\<rparr> else s0);
                        w2 = set_session ev s w1;
                        c = user_data w2 user_id
                    in (case current_product c of
                          None \<Rightarrow> (w2, Raised KeyError)
                        | Some draft \<Rightarrow>
                            let w3 = set_session ev
                                       (s\<lparr>products := Some (the (products s) @ [draft])\<rparr>) w2;
                                w4 = set_context ev (c\<lparr>current_product := Some empty_product\<rparr>) w3;
                                w5 = emit ev DeleteMessage w4
                            in (emit ev (SendMessage user_id WhatNext next_action_keyboard) w5,
                                Returned (Some NEXT_ACTION))))
             else if d = ''confirm_no'' then
               (emit ev (SendMessage user_id WhatChange edit_keyboard) (emit ev DeleteMessage w1),
                Returned (Some CONFIRM_PRODUCT))
             else if d = ''edit_color'' then
               (let c = user_data w1 user_id;
                    w2 = set_context ev (c\<lparr>colors_page := Some 0\<rparr>) w1
                in case show_colors_page ev w2 of
                     Inl e \<Rightarrow> (w2, Raised e)
                   | Inr w3 \<Rightarrow> (w3, Returned (Some PRODUCT_COLOR)))
             else if d = ''edit_new'' then
               (let c = user_data w1 user_id;
                    w2 = set_context ev (c\<lparr>current_product := Some empty_product\<rparr>) w1
                in (emit ev DeleteMessage w2, Raised UnboundLocalError))
             else (w1, Returned None))"

text \<open>
  \<^verbatim>\<open>products[-1].copy()\<close> followed by the dict literal: the five keys read from the last
  product, no colour key.
\<close>

definition clone_without_color :: "product \<Rightarrow> pyerr + product" where
  "clone_without_color last_product =
     (case (image_file_id last_product, code last_product, badge_quantity last_product,
            size_range last_product, price last_product) of
        (Some im, Some cd, Some bq, Some sr, Some pr) \<Rightarrow>
          Inr \<lparr>image_file_id = Some im, code = Some cd, color = None,
               badge_quantity = Some bq, size_range = Some sr, price = Some pr\<rparr>
      | _ \<Rightarrow> Inl KeyError)"

text \<open>One row of the order: the five answers of the session and the six keys of the product.\<close>

definition order_row_of :: "session \<Rightarrow> product \<Rightarrow> pyerr + order_row" where
  "order_row_of s product =
     (case (name s, store s, shop_id s, owner_name s, owner_phone s) of
        (Some un, Some st, Some sh, Some ow, Some ph) \<Rightarrow>
          (case (code product, color product, badge_quantity product, size_range product,
                 price product, image_file_id product) of
             (Some cd, Some cl, Some bq, Some sr, Some pr, Some im) \<Rightarrow>
               Inr \<lparr>col_user_name = un, col_store = st, col_shop_id = sh, col_owner_name = ow,
                    col_owner_phone = ph, col_product_code = cd, col_product_color = cl,
                    col_badge_quantity = bq, col_size_range = sr, col_price = pr,
                    col_image_file_id = im\<rparr>
           | _ \<Rightarrow> Inl KeyError)
      | _ \<Rightarrow> Inl KeyError)"

fun order_rows :: "session \<Rightarrow> product list \<Rightarrow> pyerr + order_row list" where
  "order_rows s [] = Inr []"
| "order_rows s (product # rest) =
     (case order_row_of s product of
        Inl e \<Rightarrow> Inl e
      | Inr r \<Rightarrow> (case order_rows s rest of Inl e \<Rightarrow> Inl e | Inr rs \<Rightarrow> Inr (r # rs)))"

definition process_next_action :: "event \<Rightarrow> world \<Rightarrow> world \<times> outcome" where
  "process_next_action ev w =
     (case message_text (payload ev) of
        None \<Rightarrow> (w, Raised AttributeError)
      | Some action \<Rightarrow>
          let user_id = effective_user ev;
              c = user_data w user_id
          in if action = ''Add same product with different color'' then
               (case user_data_store w user_id of
                  None \<Rightarrow> (w, Raised KeyError)
                | Some s \<Rightarrow>
               (case products s of
                  None \<Rightarrow> (w, Raised KeyError)
                | Some ps \<Rightarrow>
                    if ps = [] then (w, Raised IndexError)
                    else
                      (case clone_without_color (last ps) of
                         Inl e \<Rightarrow> (w, Raised e)
                       | Inr draft \<Rightarrow>
                           let w1 = set_context ev
                                      (c\<lparr>current_product := Some draft, colors_page := Some 0\<rparr>) w
                           in (case show_colors_page ev w1 of
                                 Inl e \<Rightarrow> (w1, Raised e)
                               | Inr w2 \<Rightarrow> (w2, Returned (Some PRODUCT_COLOR))))))
             else if action = ''Add new product'' then
               (emit ev (ReplyText SendProductImage NoMarkup) w, Returned (Some PRODUCT_IMAGE))
             else if action = ''Save to file'' then
               (case user_data_store w user_id of
                  None \<Rightarrow> (w, Raised KeyError)
                | Some s \<Rightarrow>
               (case products s of
                  None \<Rightarrow> (w, Raised KeyError)
                | Some products_data \<Rightarrow>
               (case order_rows s products_data of
                  Inl e \<Rightarrow> (w, Raised e)
                | Inr df \<Rightarrow>
                    let w1 = set_context ev
                               (c\<lparr>order_dataframe := Some df, recipients_page := Some 0\<rparr>) w;
                        w2 = emit ev (ReplyText SelectRecipientIntro NoMarkup) w1
                    in (case show_recipients_page ev w2 of
                          Inl e \<Rightarrow> (w2, Raised e)
                        | Inr w3 \<Rightarrow> (w3, Returned (Some CHOOSE_RECIPIENT))))))
             else (w, Returned None))"

section \<open>Finalizing\<close>

definition output_filename :: "nat \<Rightarrow> string" where
  "output_filename user_id = ''order_'' @ py_str (int user_id) @ ''.xlsx''"

text \<open>
  The second delivery, inside \<^verbatim>\<open>try\<close>: converting the contact cell, reading name and
  store of the session for the caption, and sending. Whatever fails there is caught.
\<close>

definition send_to_recipient :: "event \<Rightarrow> cell \<Rightarrow> cell \<Rightarrow> world \<Rightarrow> pyerr + world" where
  "send_to_recipient ev recipient_name recipient_id w =
     (case int_of_cell recipient_id of
        Inl e \<Rightarrow> Inl e
      | Inr chat_id \<Rightarrow>
     (case user_data_store w (effective_user ev) of
        None \<Rightarrow> Inl KeyError
      | Some s \<Rightarrow>
     (case (name s, store s) of
        (Some un, Some st) \<Rightarrow>
          if recipient_delivery ev then
            Inr (emit ev (SendMessage (effective_user ev) (OrderSentTo recipient_name) NoMarkup)
                  (emit ev (SendDocument chat_id (output_filename (effective_user ev))
                              (NewOrderFrom un st)) w))
          else Inl TransportError
      | _ \<Rightarrow> Inl KeyError)))"

definition finish_order :: "event \<Rightarrow> world \<Rightarrow> world \<times> outcome" where
  "finish_order ev w =
     (let user_id = effective_user ev;
          w1 = w\<lparr>user_data_store := (user_data_store w)(user_id := None)\<rparr>
      in (emit ev (SendMessage user_id ThankYou NoMarkup) w1, Returned (Some END)))"

definition recipient_choice :: "event \<Rightarrow> world \<Rightarrow> world \<times> outcome" where
  "recipient_choice ev w =
     (case callback_data (payload ev) of
        None \<Rightarrow> (w, Raised AttributeError)
      | Some d \<Rightarrow>
          let w1 = emit ev Answer w;
              user_id = effective_user ev;
              c = user_data w1 user_id
          in if d = ''recipient_prev_page'' then
               (case recipients_page c of
                  None \<Rightarrow> (w1, Raised KeyError)
                | Some p \<Rightarrow>
                    let w2 = set_context ev (c\<lparr>recipients_page := Some (p - 1)\<rparr>) w1
                    in (case show_recipients_page ev w2 of
                          Inl e \<Rightarrow> (w2, Raised e)
                        | Inr w3 \<Rightarrow> (w3, Returned (Some CHOOSE_RECIPIENT))))
             else if d = ''recipient_next_page'' then
               (case recipients_page c of
                  None \<Rightarrow> (w1, Raised KeyError)
                | Some p \<Rightarrow>
                    let w2 = set_context ev (c\<lparr>recipients_page := Some (p + 1)\<rparr>) w1
                    in (case show_recipients_page ev w2 of
                          Inl e \<Rightarrow> (w2, Raised e)
                        | Inr w3 \<Rightarrow> (w3, Returned (Some CHOOSE_RECIPIENT))))
             else
               (case order_dataframe c of
                  None \<Rightarrow> (w1, Raised KeyError)
                | Some df \<Rightarrow>
                    let w2 = w1\<lparr>files := (files w1)(output_filename user_id \<mapsto> df)\<rparr>;
                        w3 = emit ev DeleteMessage w2
                    in if \<not> requester_delivery ev then (w3, Raised TransportError)
                       else
                         let w4 = emit ev (SendDocument (int user_id) (output_filename user_id)
                                             OrderFileCaption) w3
                         in if d \<noteq> ''recipient_skip'' then
                              (case token_index d of
                                 Inl e \<Rightarrow> (w4, Raised e)
                               | Inr recipient_index \<Rightarrow>
                              (case recipients (excel_data w4) of
                                 None \<Rightarrow> (w4, Raised AttributeError)
                               | Some rdf \<Rightarrow>
                              (case iloc rdf recipient_index 0 of
                                 Inl e \<Rightarrow> (w4, Raised e)
                               | Inr recipient_name \<Rightarrow>
                              (case iloc rdf recipient_index 1 of
                                 Inl e \<Rightarrow> (w4, Raised e)
                               | Inr recipient_id \<Rightarrow>
                                   (case send_to_recipient ev recipient_name recipient_id w4 of
                                      Inr w5 \<Rightarrow> finish_order ev w5
                                    | Inl e \<Rightarrow>
                                        finish_order ev
                                          (emit ev (SendMessage user_id (CouldNotSend recipient_name)
                                                      NoMarkup)
                                             (emit ev LogError w4)))))))
                            else finish_order ev w4))"

definition cancel :: "event \<Rightarrow> world \<Rightarrow> world \<times> outcome" where
  "cancel ev w =
     (let w1 = w\<lparr>user_data_store := (user_data_store w)(effective_user ev := None)\<rparr>
      in if is_message (payload ev)
         then (emit ev (ReplyText Cancelled NoMarkup) w1, Returned (Some END))
         else (w1, Raised AttributeError))"

section \<open>The conversation handler\<close>

text \<open>
  \<^verbatim>\<open>main\<close> registers one \<^verbatim>\<open>ConversationHandler\<close>: \<^verbatim>\<open>/start\<close> is the entry point,
  each state has one handler with a filter, and \<^verbatim>\<open>/cancel\<close> is the only fallback. The
  library keeps the state of each user's conversation. A user without a conversation
  is offered the entry point only; otherwise the handler of the state is tried, then the
  fallback, and an update that matches neither is dropped. The state a handler returns
  becomes the new state, \<^verbatim>\<open>END\<close> removes the conversation, and \<^verbatim>\<open>None\<close> or an
  exception leaves the state where it was (the exception is logged). The bot talks to
  each user in a private chat, so a conversation is identified by its user.
\<close>

fun is_text :: "update \<Rightarrow> bool" where
  "is_text (TextMessage s) = True"
| "is_text _ = False"

fun is_photo :: "update \<Rightarrow> bool" where
  "is_photo (PhotoMessage sizes) = (sizes \<noteq> [])"
| "is_photo _ = False"

fun callback_matches :: "string list \<Rightarrow> update \<Rightarrow> bool" where
  "callback_matches prefixes (CallbackQuery d) = list_ex (\<lambda>prefix. starts_with prefix d) prefixes"
| "callback_matches prefixes _ = False"

fun state_handler :: "conv_state \<Rightarrow> update \<Rightarrow> (event \<Rightarrow> world \<Rightarrow> world \<times> outcome) option" where
  "state_handler NAME u = (if is_text u then Some process_name else None)"
| "state_handler CHOOSE_STORE u =
     (if callback_matches [''store_''] u then Some store_choice else None)"
| "state_handler SHOP_ID u = (if is_text u then Some process_shop_id else None)"
| "state_handler OWNER_NAME u = (if is_text u then Some process_owner_name else None)"
| "state_handler OWNER_PHONE u = (if is_text u then Some process_owner_phone else None)"
| "state_handler PRODUCT_IMAGE u = (if is_photo u then Some process_product_image else None)"
| "state_handler PRODUCT_CODE u = (if is_text u then Some process_product_code else None)"
| "state_handler PRODUCT_COLOR u =
     (if callback_matches [''color_''] u then Some color_choice else None)"
| "state_handler BADGE_QUANTITY u = (if is_text u then Some process_badge_quantity else None)"
| "state_handler PRODUCT_SIZE_RANGE u = (if is_text u then Some process_size_range else None)"
| "state_handler PRODUCT_PRICE u = (if is_text u then Some process_price else None)"
| "state_handler CONFIRM_PRODUCT u =
     (if callback_matches [''confirm_'', ''edit_''] u then Some confirm_product else None)"
| "state_handler NEXT_ACTION u = (if is_text u then Some process_next_action else None)"
| "state_handler CHOOSE_RECIPIENT u =
     (if callback_matches [''recipient_''] u then Some recipient_choice else None)"
| "state_handler START u = None"
| "state_handler END u = None"

definition update_state :: "event \<Rightarrow> world \<times> outcome \<Rightarrow> world" where
  "update_state ev r =
     (case r of
        (w, Raised e) \<Rightarrow> emit ev (LogException e) w
      | (w, Returned None) \<Rightarrow> w
      | (w, Returned (Some new_state)) \<Rightarrow>
          if new_state = END
          then w\<lparr>conversations := (conversations w)(effective_user ev := None)\<rparr>
          else w\<lparr>conversations := (conversations w)(effective_user ev \<mapsto> new_state)\<rparr>)"

definition handle_update :: "event \<Rightarrow> world \<Rightarrow> world" where
  "handle_update ev w =
     (case conversations w (effective_user ev) of
        None \<Rightarrow>
          if payload ev = Command ''start'' then update_state ev (start ev w) else w
      | Some current_state \<Rightarrow>
          (case state_handler current_state (payload ev) of
             Some handler \<Rightarrow> update_state ev (handler ev w)
           | None \<Rightarrow>
               if payload ev = Command ''cancel'' then update_state ev (cancel ev w) else w))"

fun run :: "event list \<Rightarrow> world \<Rightarrow> world" where
  "run [] w = w"
| "run (ev # evs) w = run evs (handle_update ev w)"

section \<open>The buttons on show\<close>

text \<open>
  What a user can press is the inline keyboard of the message the bot sent last:
  \<open>menu_buttons\<close> reads it from the log of transport calls.
\<close>

fun markup_buttons :: "markup \<Rightarrow> button list" where
  "markup_buttons (Inline keyboard) = concat keyboard"
| "markup_buttons _ = []"

fun effect_markup :: "effect \<Rightarrow> markup" where
  "effect_markup (ReplyText msg m) = m"
| "effect_markup (ReplyPhoto photo msg m) = m"
| "effect_markup (EditMessageText msg m) = m"
| "effect_markup (SendMessage chat_id msg m) = m"
| "effect_markup _ = NoMarkup"

definition menu_buttons :: "world \<Rightarrow> button list" where
  "menu_buttons w =
     (if outbox w = [] then [] else markup_buttons (effect_markup (snd (last (outbox w)))))"

section \<open>The specification's page count and sample inputs\<close>

text \<open>
  The page count as the specification words it, \<open>max(1, ceil(n / pageSize))\<close>, to be
  compared with \<open>total_pages\<close> of the source.
\<close>

definition spec_total_pages :: "int \<Rightarrow> int" where
  "spec_total_pages n = max 1 \<lceil>real_of_int n / real_of_int ITEMS_PER_PAGE\<rceil>"

text \<open>A sheet of twelve rows with two columns, a button press of user 7, and a process
  state in which the three sheets are loaded and user 7 looks at the second page.\<close>

definition demo_sheet :: dataframe where
  "demo_sheet = map (\<lambda>i. Row (Num i) [Num (100 + i)]) [0 .. 11]"

definition demo_event :: event where
  "demo_event = \<lparr>effective_user = 7, payload = CallbackQuery ''store_next_page'', remote = None,
     requester_delivery = True, recipient_delivery = True\<rparr>"

definition demo_world :: world where
  "demo_world = initial_world\<lparr>
     excel_data := \<lparr>stores = Some demo_sheet, colors = Some demo_sheet, recipients = Some demo_sheet\<rparr>,
     user_data := (\<lambda>_. empty_context\<lparr>stores_page := Some 1, colors_page := Some 1\<rparr>)\<rparr>"



text \<open>A confirmed product, the session of user 7 that holds it, the order row built from
  both, a button press of user 7 with the token \<open>d\<close>, and the process state in which
  user 7 is in state \<open>st\<close> and looks at page \<open>p\<close> of each menu.\<close>

definition demo_product :: product where
  "demo_product = \<lparr>image_file_id = Some ''photo1'', code = Some ''C1'', color = Some (Str ''Red''),
     badge_quantity = Some ''50'', size_range = Some ''S-XL'', price = Some ''9.99''\<rparr>"

definition demo_session :: session where
  "demo_session = \<lparr>name = Some ''Ann'', store = Some (Num 3), shop_id = Some ''S1'',
     owner_name = Some ''Jane'', owner_phone = Some ''555'', products = Some [demo_product]\<rparr>"

definition demo_order :: "order_row list" where
  "demo_order = [\<lparr>col_user_name = ''Ann'', col_store = Num 3, col_shop_id = ''S1'',
     col_owner_name = ''Jane'', col_owner_phone = ''555'', col_product_code = ''C1'',
     col_product_color = Str ''Red'', col_badge_quantity = ''50'', col_size_range = ''S-XL'',
     col_price = ''9.99'', col_image_file_id = ''photo1''\<rparr>]"

definition demo_press :: "string \<Rightarrow> event" where
  "demo_press d = \<lparr>effective_user = 7, payload = CallbackQuery d, remote = None,
     requester_delivery = True, recipient_delivery = True\<rparr>"

definition demo_world_at :: "int \<Rightarrow> conv_state \<Rightarrow> world" where
  "demo_world_at p st = demo_world\<lparr>
     user_data_store := [7 \<mapsto> demo_session],
     user_data := (\<lambda>_. \<lparr>stores_page = Some p, colors_page = Some p, recipients_page = Some p,
                          current_product = Some demo_product, order_dataframe = Some demo_order\<rparr>),
     conversations := [7 \<mapsto> st]\<rparr>"

text \<open>A press on the fourth recipient while the transport cannot reach the recipient.\<close>

definition demo_failed_delivery :: event where
  "demo_failed_delivery = \<lparr>effective_user = 7, payload = CallbackQuery ''recipient_3'',
     remote = None, requester_delivery = True, recipient_delivery = False\<rparr>"

text \<open>A text message and a command of user 7.\<close>

definition demo_text :: "string \<Rightarrow> event" where
  "demo_text s = \<lparr>effective_user = 7, payload = TextMessage s, remote = None,
     requester_delivery = True, recipient_delivery = True\<rparr>"

definition demo_command :: "string \<Rightarrow> event" where
  "demo_command c = \<lparr>effective_user = 7, payload = Command c, remote = None,
     requester_delivery = True, recipient_delivery = True\<rparr>"


text \<open>An update of user \<open>u\<close> while the remote workbook can be fetched, and one while it
  cannot.\<close>

definition user_event :: "nat \<Rightarrow> update \<Rightarrow> event" where
  "user_event u upd = \<lparr>effective_user = u, payload = upd,
     remote = Some (demo_sheet, demo_sheet, demo_sheet),
     requester_delivery = True, recipient_delivery = True\<rparr>"

definition offline_event :: "nat \<Rightarrow> update \<Rightarrow> event" where
  "offline_event u upd = \<lparr>effective_user = u, payload = upd, remote = None,
     requester_delivery = True, recipient_delivery = True\<rparr>"

text \<open>User 7 starts and gives a name; then user 8 does the same.\<close>

definition first_conversation :: "event list" where
  "first_conversation = [user_event 7 (Command ''start''), user_event 7 (TextMessage ''Ann'')]"

definition second_conversation :: "event list" where
  "second_conversation = [user_event 8 (Command ''start''), user_event 8 (TextMessage ''Bob'')]"

text \<open>User 7 starts while the workbook cannot be fetched, and starts again when it can.\<close>

definition offline_then_online :: "event list" where
  "offline_then_online = [offline_event 7 (Command ''start''), offline_event 7 (TextMessage ''Ann''),
     user_event 7 (Command ''start''), user_event 7 (TextMessage ''Ann'')]"

text \<open>User 7 enters a whole product, rejects it, asks for a new product, and then a
  confirmation arrives.\<close>

definition restart_then_confirm :: "event list" where
  "restart_then_confirm = map (user_event 7)
     [Command ''start'', TextMessage ''Ann'', CallbackQuery ''store_0'', TextMessage ''S1'',
      TextMessage ''Jane'', TextMessage ''555'', PhotoMessage [''small'', ''large''],
      TextMessage ''C1'', CallbackQuery ''color_0'', TextMessage ''50'', TextMessage ''S-XL'',
      TextMessage ''9.99'', CallbackQuery ''confirm_no'', CallbackQuery ''edit_new'',
      CallbackQuery ''confirm_yes'']"

section \<open>Python strings and sheets\<close>

lemma digit_val_digit_char: "d < 10 \<Longrightarrow> digit_val (digit_char d) = Some d"
  by (simp add: digit_val_def digit_char_def)

lemma digit_char_not_space: "\<not> is_space (digit_char d)"
  by (simp add: digit_char_def is_space_def)

lemma digit_char_not_sep:
  "digit_char d \<noteq> CHR ''_''" "digit_char d \<noteq> CHR ''-''" "digit_char d \<noteq> CHR ''+''"
  by (simp_all add: digit_char_def)

lemma digits_val_snoc:
  assumes "digits_val acc after_digit xs = Some a" and "d < 10"
  shows "digits_val acc after_digit (xs @ [digit_char d]) = Some (10 * a + d)"
  using assms(1)
proof (induction xs arbitrary: acc after_digit)
  case Nil
  then show ?case
    using assms(2) by (simp add: digit_val_digit_char digit_char_not_sep split: if_splits)
next
  case (Cons c cs)
  then show ?case
    by (auto split: if_splits option.splits)
qed

lemma digits_val_nat_str: "digits_val 0 False (nat_str n) = Some n"
proof (induction n rule: nat_str.induct)
  case (1 n)
  show ?case
  proof (cases "n < 10")
    case True
    then show ?thesis
      by (simp add: nat_str.simps [of n] digit_val_digit_char digit_char_not_sep)
  next
    case False
    then have ih: "digits_val 0 False (nat_str (n div 10)) = Some (n div 10)" using 1 by simp
    have "digits_val 0 False (nat_str (n div 10) @ [digit_char (n mod 10)])
        = Some (10 * (n div 10) + n mod 10)"
      by (rule digits_val_snoc [OF ih]) simp
    with False show ?thesis
      by (simp add: nat_str.simps [of n])
  qed
qed

lemma nat_str_nonempty: "nat_str n \<noteq> []"
  by (subst nat_str.simps) simp

lemma set_nat_str: "c \<in> set (nat_str n) \<Longrightarrow> \<exists>d. c = digit_char d"
proof (induction n rule: nat_str.induct)
  case (1 n)
  then show ?case
    by (cases "n < 10") (auto simp: nat_str.simps [of n])
qed

lemma strip_no_space:
  assumes "\<forall>c \<in> set xs. \<not> is_space c"
  shows "strip xs = xs"
proof -
  have keep: "dropWhile is_space ys = ys" if "\<forall>c \<in> set ys. \<not> is_space c" for ys
    using that by (cases ys) auto
  have "dropWhile is_space xs = xs" using assms by (rule keep)
  moreover have "dropWhile is_space (rev xs) = rev xs" using assms by (intro keep) simp
  ultimately show ?thesis by (simp add: strip_def)
qed

lemma strip_nat_str: "strip (nat_str n) = nat_str n"
  by (rule strip_no_space) (auto dest: set_nat_str simp: digit_char_not_space)

lemma unsigned_int_nat_str: "unsigned_int (nat_str n) = Inr (int n)"
  by (simp add: unsigned_int_def digits_val_nat_str)

lemma hd_nat_str: "\<exists>d cs. nat_str n = digit_char d # cs"
proof (cases "nat_str n")
  case Nil
  then show ?thesis by (simp add: nat_str_nonempty)
next
  case (Cons c cs)
  then have "c \<in> set (nat_str n)" by simp
  then obtain d where "c = digit_char d" using set_nat_str by blast
  with Cons show ?thesis by blast
qed

lemma py_int_nat_str: "py_int (nat_str n) = Inr (int n)"
proof -
  obtain d cs where eq: "nat_str n = digit_char d # cs" using hd_nat_str by blast
  have "unsigned_int (digit_char d # cs) = Inr (int n)"
    using unsigned_int_nat_str [of n] by (simp add: eq)
  then show ?thesis
    by (simp add: py_int_def strip_nat_str eq [symmetric])
       (simp add: eq digit_char_not_sep)
qed

lemma py_int_py_str: "0 \<le> i \<Longrightarrow> py_int (py_str i) = Inr i"
  by (simp add: py_str_def py_int_nat_str)

lemma split_on_no_sep: "sep \<notin> set b \<Longrightarrow> split_on sep b = [b]"
  by (induction b) auto

lemma split_on_token:
  "sep \<notin> set a \<Longrightarrow> sep \<notin> set b \<Longrightarrow> split_on sep (a @ sep # b) = [a, b]"
  by (induction a) (auto simp: split_on_no_sep)

lemma sep_notin_py_str: "0 \<le> i \<Longrightarrow> CHR ''_'' \<notin> set (py_str i)"
proof
  assume "0 \<le> i" and "CHR ''_'' \<in> set (py_str i)"
  then have "CHR ''_'' \<in> set (nat_str (nat i))" by (simp add: py_str_def)
  then obtain d where "CHR ''_'' = digit_char d" using set_nat_str by blast
  then show False using digit_char_not_sep(1) [of d] by simp
qed

lemma token_index_selection:
  assumes "0 \<le> i" and "CHR ''_'' \<notin> set prefix"
  shows "token_index (prefix @ ''_'' @ py_str i) = Inr i"
  using split_on_token [OF assms(2) sep_notin_py_str [OF assms(1)]] py_int_py_str [OF assms(1)]
  by (simp add: token_index_def)



section \<open>What the handlers keep and the branches they take\<close>

lemmas world_defs = emit_def set_context_def set_session_def send_page_def

lemma show_stores_page_sends:
  "show_stores_page ev w = Inr w' \<Longrightarrow> \<exists>msg m. w' = send_page ev msg m w"
  by (auto simp: show_stores_page_def Let_def split: option.splits sum.splits)

lemma show_colors_page_sends:
  "show_colors_page ev w = Inr w' \<Longrightarrow> \<exists>msg m. w' = send_page ev msg m w"
  by (auto simp: show_colors_page_def Let_def split: option.splits sum.splits)

lemma show_recipients_page_sends:
  "show_recipients_page ev w = Inr w' \<Longrightarrow> \<exists>msg m. w' = send_page ev msg m w"
  by (auto simp: show_recipients_page_def Let_def split: option.splits sum.splits)

lemma emit_keeps [simp]:
  "user_data (emit ev out w) = user_data w"
  "user_data_store (emit ev out w) = user_data_store w"
  "excel_data (emit ev out w) = excel_data w"
  "conversations (emit ev out w) = conversations w"
  "files (emit ev out w) = files w"
  "fetches (emit ev out w) = fetches w"
  "outbox (emit ev out w) = outbox w @ [(effective_user ev, out)]"
  by (simp_all add: emit_def)

lemma set_context_keeps [simp]:
  "user_data (set_context ev c w) = (user_data w)(effective_user ev := c)"
  "user_data_store (set_context ev c w) = user_data_store w"
  "excel_data (set_context ev c w) = excel_data w"
  "conversations (set_context ev c w) = conversations w"
  "files (set_context ev c w) = files w"
  "fetches (set_context ev c w) = fetches w"
  "outbox (set_context ev c w) = outbox w"
  by (simp_all add: set_context_def)

lemma set_session_keeps [simp]:
  "user_data (set_session ev s w) = user_data w"
  "user_data_store (set_session ev s w) = (user_data_store w)(effective_user ev \<mapsto> s)"
  "excel_data (set_session ev s w) = excel_data w"
  "conversations (set_session ev s w) = conversations w"
  "files (set_session ev s w) = files w"
  "fetches (set_session ev s w) = fetches w"
  "outbox (set_session ev s w) = outbox w"
  by (simp_all add: set_session_def)

lemma send_page_keeps [simp]:
  "user_data (send_page ev msg m w) = user_data w"
  "user_data_store (send_page ev msg m w) = user_data_store w"
  "excel_data (send_page ev msg m w) = excel_data w"
  "conversations (send_page ev msg m w) = conversations w"
  "files (send_page ev msg m w) = files w"
  "fetches (send_page ev msg m w) = fetches w"
  by (simp_all add: world_defs)


lemma store_choice_on_prev:
  assumes "payload ev = CallbackQuery ''store_prev_page''"
  shows "store_choice ev w =
     (case stores_page (user_data w (effective_user ev)) of
        None \<Rightarrow> (emit ev Answer w, Raised KeyError)
      | Some p \<Rightarrow>
          (case show_stores_page ev
                  (set_context ev (user_data w (effective_user ev)\<lparr>stores_page := Some (p - 1)\<rparr>)
                     (emit ev Answer w)) of
             Inl e \<Rightarrow>
               (set_context ev (user_data w (effective_user ev)\<lparr>stores_page := Some (p - 1)\<rparr>)
                  (emit ev Answer w), Raised e)
           | Inr w3 \<Rightarrow> (w3, Returned (Some CHOOSE_STORE))))"
  using assms by (simp add: store_choice_def Let_def split: option.splits)

lemma store_choice_on_next:
  assumes "payload ev = CallbackQuery ''store_next_page''"
  shows "store_choice ev w =
     (case stores_page (user_data w (effective_user ev)) of
        None \<Rightarrow> (emit ev Answer w, Raised KeyError)
      | Some p \<Rightarrow>
          (case show_stores_page ev
                  (set_context ev (user_data w (effective_user ev)\<lparr>stores_page := Some (p + 1)\<rparr>)
                     (emit ev Answer w)) of
             Inl e \<Rightarrow>
               (set_context ev (user_data w (effective_user ev)\<lparr>stores_page := Some (p + 1)\<rparr>)
                  (emit ev Answer w), Raised e)
           | Inr w3 \<Rightarrow> (w3, Returned (Some CHOOSE_STORE))))"
  using assms by (simp add: store_choice_def Let_def split: option.splits)

lemma store_choice_prev:
  assumes "payload ev = CallbackQuery ''store_prev_page''"
    and "stores_page (user_data w (effective_user ev)) = Some p"
  shows "stores_page (user_data (fst (store_choice ev w)) (effective_user ev)) = Some (p - 1)"
  using assms(2)
  by (auto simp: store_choice_on_prev [OF assms(1)] split: sum.splits
      dest!: show_stores_page_sends)

lemma store_choice_next:
  assumes "payload ev = CallbackQuery ''store_next_page''"
    and "stores_page (user_data w (effective_user ev)) = Some p"
  shows "stores_page (user_data (fst (store_choice ev w)) (effective_user ev)) = Some (p + 1)"
  using assms(2)
  by (auto simp: store_choice_on_next [OF assms(1)] split: sum.splits
      dest!: show_stores_page_sends)

lemma store_choice_nav_outcome:
  assumes "payload ev = CallbackQuery ''store_prev_page'' \<or> payload ev = CallbackQuery ''store_next_page''"
  shows "snd (store_choice ev w) = Returned (Some CHOOSE_STORE) \<or> (\<exists>e. snd (store_choice ev w) = Raised e)"
  using assms
  by (auto simp: store_choice_on_prev store_choice_on_next split: sum.splits option.splits)

lemma store_choice_nav_conversations:
  assumes "payload ev = CallbackQuery ''store_prev_page'' \<or> payload ev = CallbackQuery ''store_next_page''"
  shows "conversations (fst (store_choice ev w)) = conversations w"
  using assms
  by (auto simp: store_choice_on_prev store_choice_on_next
      split: sum.splits option.splits dest!: show_stores_page_sends)

lemma store_choice_nav_stays:
  assumes "payload ev = CallbackQuery ''store_prev_page'' \<or> payload ev = CallbackQuery ''store_next_page''"
    and "conversations w (effective_user ev) = Some CHOOSE_STORE"
  shows "conversations (handle_update ev w) (effective_user ev) = Some CHOOSE_STORE"
proof -
  have h: "state_handler CHOOSE_STORE (payload ev) = Some store_choice"
    using assms(1) by (auto simp: starts_with_def)
  obtain w' r where r: "store_choice ev w = (w', r)" by (cases "store_choice ev w")
  have c: "conversations w' = conversations w"
    using store_choice_nav_conversations [OF assms(1), of w] r by simp
  have "r = Returned (Some CHOOSE_STORE) \<or> (\<exists>e. r = Raised e)"
    using store_choice_nav_outcome [OF assms(1), of w] r by simp
  then show ?thesis
    using assms(2) h r c by (auto simp: handle_update_def update_state_def emit_def)
qed

lemma color_choice_on_prev:
  assumes "payload ev = CallbackQuery ''color_prev_page''"
  shows "color_choice ev w =
     (case colors_page (user_data w (effective_user ev)) of
        None \<Rightarrow> (emit ev Answer w, Raised KeyError)
      | Some p \<Rightarrow>
          (case show_colors_page ev
                  (set_context ev (user_data w (effective_user ev)\<lparr>colors_page := Some (p - 1)\<rparr>)
                     (emit ev Answer w)) of
             Inl e \<Rightarrow>
               (set_context ev (user_data w (effective_user ev)\<lparr>colors_page := Some (p - 1)\<rparr>)
                  (emit ev Answer w), Raised e)
           | Inr w3 \<Rightarrow> (w3, Returned (Some PRODUCT_COLOR))))"
  using assms by (simp add: color_choice_def Let_def split: option.splits)

lemma color_choice_on_next:
  assumes "payload ev = CallbackQuery ''color_next_page''"
  shows "color_choice ev w =
     (case colors_page (user_data w (effective_user ev)) of
        None \<Rightarrow> (emit ev Answer w, Raised KeyError)
      | Some p \<Rightarrow>
          (case show_colors_page ev
                  (set_context ev (user_data w (effective_user ev)\<lparr>colors_page := Some (p + 1)\<rparr>)
                     (emit ev Answer w)) of
             Inl e \<Rightarrow>
               (set_context ev (user_data w (effective_user ev)\<lparr>colors_page := Some (p + 1)\<rparr>)
                  (emit ev Answer w), Raised e)
           | Inr w3 \<Rightarrow> (w3, Returned (Some PRODUCT_COLOR))))"
  using assms by (simp add: color_choice_def Let_def split: option.splits)

lemma color_choice_prev:
  assumes "payload ev = CallbackQuery ''color_prev_page''"
    and "colors_page (user_data w (effective_user ev)) = Some p"
  shows "colors_page (user_data (fst (color_choice ev w)) (effective_user ev)) = Some (p - 1)"
  using assms(2)
  by (auto simp: color_choice_on_prev [OF assms(1)] split: sum.splits
      dest!: show_colors_page_sends)

lemma color_choice_next:
  assumes "payload ev = CallbackQuery ''color_next_page''"
    and "colors_page (user_data w (effective_user ev)) = Some p"
  shows "colors_page (user_data (fst (color_choice ev w)) (effective_user ev)) = Some (p + 1)"
  using assms(2)
  by (auto simp: color_choice_on_next [OF assms(1)] split: sum.splits
      dest!: show_colors_page_sends)

lemma color_choice_nav_outcome:
  assumes "payload ev = CallbackQuery ''color_prev_page'' \<or> payload ev = CallbackQuery ''color_next_page''"
  shows "snd (color_choice ev w) = Returned (Some PRODUCT_COLOR) \<or> (\<exists>e. snd (color_choice ev w) = Raised e)"
  using assms
  by (auto simp: color_choice_on_prev color_choice_on_next split: sum.splits option.splits)

lemma color_choice_nav_conversations:
  assumes "payload ev = CallbackQuery ''color_prev_page'' \<or> payload ev = CallbackQuery ''color_next_page''"
  shows "conversations (fst (color_choice ev w)) = conversations w"
  using assms
  by (auto simp: color_choice_on_prev color_choice_on_next
      split: sum.splits option.splits dest!: show_colors_page_sends)

lemma color_choice_nav_stays:
  assumes "payload ev = CallbackQuery ''color_prev_page'' \<or> payload ev = CallbackQuery ''color_next_page''"
    and "conversations w (effective_user ev) = Some PRODUCT_COLOR"
  shows "conversations (handle_update ev w) (effective_user ev) = Some PRODUCT_COLOR"
proof -
  have h: "state_handler PRODUCT_COLOR (payload ev) = Some color_choice"
    using assms(1) by (auto simp: starts_with_def)
  obtain w' r where r: "color_choice ev w = (w', r)" by (cases "color_choice ev w")
  have c: "conversations w' = conversations w"
    using color_choice_nav_conversations [OF assms(1), of w] r by simp
  have "r = Returned (Some PRODUCT_COLOR) \<or> (\<exists>e. r = Raised e)"
    using color_choice_nav_outcome [OF assms(1), of w] r by simp
  then show ?thesis
    using assms(2) h r c by (auto simp: handle_update_def update_state_def emit_def)
qed

lemma recipient_choice_on_prev:
  assumes "payload ev = CallbackQuery ''recipient_prev_page''"
  shows "recipient_choice ev w =
     (case recipients_page (user_data w (effective_user ev)) of
        None \<Rightarrow> (emit ev Answer w, Raised KeyError)
      | Some p \<Rightarrow>
          (case show_recipients_page ev
                  (set_context ev (user_data w (effective_user ev)\<lparr>recipients_page := Some (p - 1)\<rparr>)
                     (emit ev Answer w)) of
             Inl e \<Rightarrow>
               (set_context ev (user_data w (effective_user ev)\<lparr>recipients_page := Some (p - 1)\<rparr>)
                  (emit ev Answer w), Raised e)
           | Inr w3 \<Rightarrow> (w3, Returned (Some CHOOSE_RECIPIENT))))"
  using assms by (simp add: recipient_choice_def Let_def split: option.splits)

lemma recipient_choice_on_next:
  assumes "payload ev = CallbackQuery ''recipient_next_page''"
  shows "recipient_choice ev w =
     (case recipients_page (user_data w (effective_user ev)) of
        None \<Rightarrow> (emit ev Answer w, Raised KeyError)
      | Some p \<Rightarrow>
          (case show_recipients_page ev
                  (set_context ev (user_data w (effective_user ev)\<lparr>recipients_page := Some (p + 1)\<rparr>)
                     (emit ev Answer w)) of
             Inl e \<Rightarrow>
               (set_context ev (user_data w (effective_user ev)\<lparr>recipients_page := Some (p + 1)\<rparr>)
                  (emit ev Answer w), Raised e)
           | Inr w3 \<Rightarrow> (w3, Returned (Some CHOOSE_RECIPIENT))))"
  using assms by (simp add: recipient_choice_def Let_def split: option.splits)

lemma recipient_choice_prev:
  assumes "payload ev = CallbackQuery ''recipient_prev_page''"
    and "recipients_page (user_data w (effective_user ev)) = Some p"
  shows "recipients_page (user_data (fst (recipient_choice ev w)) (effective_user ev)) = Some (p - 1)"
  using assms(2)
  by (auto simp: recipient_choice_on_prev [OF assms(1)] split: sum.splits
      dest!: show_recipients_page_sends)

lemma recipient_choice_next:
  assumes "payload ev = CallbackQuery ''recipient_next_page''"
    and "recipients_page (user_data w (effective_user ev)) = Some p"
  shows "recipients_page (user_data (fst (recipient_choice ev w)) (effective_user ev)) = Some (p + 1)"
  using assms(2)
  by (auto simp: recipient_choice_on_next [OF assms(1)] split: sum.splits
      dest!: show_recipients_page_sends)

lemma recipient_choice_nav_outcome:
  assumes "payload ev = CallbackQuery ''recipient_prev_page'' \<or> payload ev = CallbackQuery ''recipient_next_page''"
  shows "snd (recipient_choice ev w) = Returned (Some CHOOSE_RECIPIENT) \<or> (\<exists>e. snd (recipient_choice ev w) = Raised e)"
  using assms
  by (auto simp: recipient_choice_on_prev recipient_choice_on_next split: sum.splits option.splits)

lemma recipient_choice_nav_conversations:
  assumes "payload ev = CallbackQuery ''recipient_prev_page'' \<or> payload ev = CallbackQuery ''recipient_next_page''"
  shows "conversations (fst (recipient_choice ev w)) = conversations w"
  using assms
  by (auto simp: recipient_choice_on_prev recipient_choice_on_next
      split: sum.splits option.splits dest!: show_recipients_page_sends)

lemma recipient_choice_nav_stays:
  assumes "payload ev = CallbackQuery ''recipient_prev_page'' \<or> payload ev = CallbackQuery ''recipient_next_page''"
    and "conversations w (effective_user ev) = Some CHOOSE_RECIPIENT"
  shows "conversations (handle_update ev w) (effective_user ev) = Some CHOOSE_RECIPIENT"
proof -
  have h: "state_handler CHOOSE_RECIPIENT (payload ev) = Some recipient_choice"
    using assms(1) by (auto simp: starts_with_def)
  obtain w' r where r: "recipient_choice ev w = (w', r)" by (cases "recipient_choice ev w")
  have c: "conversations w' = conversations w"
    using recipient_choice_nav_conversations [OF assms(1), of w] r by simp
  have "r = Returned (Some CHOOSE_RECIPIENT) \<or> (\<exists>e. r = Raised e)"
    using recipient_choice_nav_outcome [OF assms(1), of w] r by simp
  then show ?thesis
    using assms(2) h r c by (auto simp: handle_update_def update_state_def emit_def)
qed


lemma store_choice_select:
  assumes "payload ev = CallbackQuery d" and "d \<noteq> ''store_prev_page''" and "d \<noteq> ''store_next_page''"
  shows "store_choice ev w =
     (case token_index d of
        Inl e \<Rightarrow> (emit ev Answer w, Raised e)
      | Inr store_index \<Rightarrow>
     (case stores (excel_data w) of
        None \<Rightarrow> (emit ev Answer w, Raised AttributeError)
      | Some df \<Rightarrow>
     (case iloc df store_index 0 of
        Inl e \<Rightarrow> (emit ev Answer w, Raised e)
      | Inr store_name \<Rightarrow>
     (case user_data_store w (effective_user ev) of
        None \<Rightarrow> (emit ev Answer w, Raised KeyError)
      | Some s \<Rightarrow>
          (emit ev (EditMessageText (SelectedStore store_name) NoMarkup)
             (set_session ev (s\<lparr>store := Some store_name\<rparr>) (emit ev Answer w)),
           Returned (Some SHOP_ID))))))"
  using assms by (simp add: store_choice_def Let_def split: option.splits sum.splits)

lemma color_choice_select:
  assumes "payload ev = CallbackQuery d" and "d \<noteq> ''color_prev_page''" and "d \<noteq> ''color_next_page''"
  shows "color_choice ev w =
     (case token_index d of
        Inl e \<Rightarrow> (emit ev Answer w, Raised e)
      | Inr color_index \<Rightarrow>
     (case colors (excel_data w) of
        None \<Rightarrow> (emit ev Answer w, Raised AttributeError)
      | Some df \<Rightarrow>
     (case iloc df color_index 0 of
        Inl e \<Rightarrow> (emit ev Answer w, Raised e)
      | Inr color_name \<Rightarrow>
     (case current_product (user_data w (effective_user ev)) of
        None \<Rightarrow> (emit ev Answer w, Raised KeyError)
      | Some product \<Rightarrow>
          (emit ev (EditMessageText (SelectedColor color_name) NoMarkup)
             (set_context ev
                (user_data w (effective_user ev)
                   \<lparr>current_product := Some (product\<lparr>color := Some color_name\<rparr>)\<rparr>)
                (emit ev Answer w)),
           Returned (Some BADGE_QUANTITY))))))"
  using assms by (simp add: color_choice_def Let_def split: option.splits sum.splits)

lemma store_choice_advances:
  assumes "snd (store_choice ev w) = Returned (Some st)" and "st \<noteq> CHOOSE_STORE"
  shows "\<exists>d i. payload ev = CallbackQuery d \<and> d \<noteq> ''store_prev_page'' \<and> d \<noteq> ''store_next_page''
           \<and> token_index d = Inr i \<and> st = SHOP_ID"
proof (cases "callback_data (payload ev)")
  case None
  then show ?thesis using assms by (simp add: store_choice_def)
next
  case (Some d)
  then have p: "payload ev = CallbackQuery d" by (cases "payload ev") simp_all
  show ?thesis
  proof (cases "d = ''store_prev_page'' \<or> d = ''store_next_page''")
    case True
    then show ?thesis using store_choice_nav_outcome [of ev w] p assms by auto
  next
    case False
    then show ?thesis
      using assms p
      by (auto simp: store_choice_select [OF p] split: sum.splits option.splits)
  qed
qed

lemma color_choice_advances:
  assumes "snd (color_choice ev w) = Returned (Some st)" and "st \<noteq> PRODUCT_COLOR"
  shows "\<exists>d i. payload ev = CallbackQuery d \<and> d \<noteq> ''color_prev_page'' \<and> d \<noteq> ''color_next_page''
           \<and> token_index d = Inr i \<and> st = BADGE_QUANTITY"
proof (cases "callback_data (payload ev)")
  case None
  then show ?thesis using assms by (simp add: color_choice_def)
next
  case (Some d)
  then have p: "payload ev = CallbackQuery d" by (cases "payload ev") simp_all
  show ?thesis
  proof (cases "d = ''color_prev_page'' \<or> d = ''color_next_page''")
    case True
    then show ?thesis using color_choice_nav_outcome [of ev w] p assms by auto
  next
    case False
    then show ?thesis
      using assms p
      by (auto simp: color_choice_select [OF p] split: sum.splits option.splits)
  qed
qed


lemma recipient_choice_select:
  assumes "payload ev = CallbackQuery d" and "d \<noteq> ''recipient_prev_page''"
    and "d \<noteq> ''recipient_next_page''"
  shows "recipient_choice ev w =
     (let w1 = emit ev Answer w;
          user_id = effective_user ev;
          c = user_data w1 user_id
      in case order_dataframe c of
           None \<Rightarrow> (w1, Raised KeyError)
         | Some df \<Rightarrow>
             let w2 = w1\<lparr>files := (files w1)(output_filename user_id \<mapsto> df)\<rparr>;
                 w3 = emit ev DeleteMessage w2
             in if \<not> requester_delivery ev then (w3, Raised TransportError)
                else
                  let w4 = emit ev (SendDocument (int user_id) (output_filename user_id)
                                      OrderFileCaption) w3
                  in if d \<noteq> ''recipient_skip'' then
                       (case token_index d of
                          Inl e \<Rightarrow> (w4, Raised e)
                        | Inr recipient_index \<Rightarrow>
                       (case recipients (excel_data w4) of
                          None \<Rightarrow> (w4, Raised AttributeError)
                        | Some rdf \<Rightarrow>
                       (case iloc rdf recipient_index 0 of
                          Inl e \<Rightarrow> (w4, Raised e)
                        | Inr recipient_name \<Rightarrow>
                       (case iloc rdf recipient_index 1 of
                          Inl e \<Rightarrow> (w4, Raised e)
                        | Inr recipient_id \<Rightarrow>
                            (case send_to_recipient ev recipient_name recipient_id w4 of
                               Inr w5 \<Rightarrow> finish_order ev w5
                             | Inl e \<Rightarrow>
                                 finish_order ev
                                   (emit ev (SendMessage user_id (CouldNotSend recipient_name)
                                               NoMarkup)
                                      (emit ev LogError w4)))))))
                     else finish_order ev w4)"
  using assms by (simp add: recipient_choice_def Let_def)

lemma recipient_choice_advances:
  assumes "snd (recipient_choice ev w) = Returned (Some st)" and "st \<noteq> CHOOSE_RECIPIENT"
  shows "\<exists>d. payload ev = CallbackQuery d \<and> d \<noteq> ''recipient_prev_page''
           \<and> d \<noteq> ''recipient_next_page''
           \<and> (d = ''recipient_skip'' \<or> (\<exists>i. token_index d = Inr i)) \<and> st = END"
proof (cases "callback_data (payload ev)")
  case None
  then show ?thesis using assms by (simp add: recipient_choice_def)
next
  case (Some d)
  then have p: "payload ev = CallbackQuery d" by (cases "payload ev") simp_all
  show ?thesis
  proof (cases "d = ''recipient_prev_page'' \<or> d = ''recipient_next_page''")
    case True
    then show ?thesis using recipient_choice_nav_outcome [of ev w] p assms by auto
  next
    case False
    then show ?thesis
      using assms p
      by (auto simp: recipient_choice_select [OF p] finish_order_def Let_def
          split: sum.splits option.splits if_splits)
  qed
qed

lemma py_str_not_word:
  assumes "0 \<le> i"
  shows "py_str i \<noteq> ''prev_page''" and "py_str i \<noteq> ''next_page''" and "py_str i \<noteq> ''skip''"
proof -
  obtain d cs where "nat_str (nat i) = digit_char d # cs" using hd_nat_str by blast
  then have e: "py_str i = digit_char d # cs" using assms by (simp add: py_str_def)
  show "py_str i \<noteq> ''prev_page''" and "py_str i \<noteq> ''next_page''" and "py_str i \<noteq> ''skip''"
    by (simp_all add: e digit_char_def)
qed

lemma iloc_second:
  "0 \<le> i \<Longrightarrow> i < int (length df) \<Longrightarrow> other_cols (df ! nat i) \<noteq> [] \<Longrightarrow>
   iloc df i 1 = Inr (hd (other_cols (df ! nat i)))"
  by (simp add: iloc_def hd_conv_nth)

lemma send_to_recipient_fails:
  "\<not> recipient_delivery ev \<Longrightarrow> \<exists>e. send_to_recipient ev recipient_name recipient_id w = Inl e"
  by (auto simp: send_to_recipient_def split: sum.splits option.splits)

section \<open>Pagination\<close>

lemma total_pages_ceiling: "total_pages n = \<lceil>real_of_int n / real_of_int ITEMS_PER_PAGE\<rceil>"
  unfolding total_pages_def ITEMS_PER_PAGE_def
  by (simp add: ceiling_divide_eq_div) linarith?

lemma length_page_range:
  "0 \<le> p \<Longrightarrow> p < max 1 (total_pages n) \<Longrightarrow> 0 \<le> n \<Longrightarrow>
   int (length (page_range p n)) = min ITEMS_PER_PAGE (n - p * ITEMS_PER_PAGE)"
  unfolding page_range_def total_pages_def ITEMS_PER_PAGE_def Let_def
  by (auto simp: min_def)

lemma set_page_range:
  "0 \<le> p \<Longrightarrow> i \<in> set (page_range p n) \<Longrightarrow> 0 \<le> i \<and> i < n"
  unfolding page_range_def ITEMS_PER_PAGE_def Let_def
  by auto

lemma iloc_first: "0 \<le> i \<Longrightarrow> i < int (length df) \<Longrightarrow> iloc df i 0 = Inr (first_col (df ! nat i))"
  by (simp add: iloc_def)

lemma item_rows_valid:
  "\<forall>i \<in> set idxs. 0 \<le> i \<and> i < int (length df) \<Longrightarrow>
   \<exists>kb. item_rows prefix df idxs = Inr kb \<and> length kb = length idxs"
  by (induction idxs) (auto simp: iloc_first)

lemma item_rows_page:
  assumes "0 \<le> p" and "p < max 1 (total_pages (int (length df)))"
  shows "\<exists>kb. item_rows prefix df (page_range p (int (length df))) = Inr kb \<and>
           int (length kb) = min ITEMS_PER_PAGE (int (length df) - p * ITEMS_PER_PAGE)"
proof -
  have "\<forall>i \<in> set (page_range p (int (length df))). 0 \<le> i \<and> i < int (length df)"
    using set_page_range [OF assms(1)] by blast
  then obtain kb where kb: "item_rows prefix df (page_range p (int (length df))) = Inr kb"
    and len: "length kb = length (page_range p (int (length df)))"
    using item_rows_valid by blast
  from len have "int (length kb) = min ITEMS_PER_PAGE (int (length df) - p * ITEMS_PER_PAGE)"
    using length_page_range [OF assms] by simp
  with kb show ?thesis by blast
qed

lemma nav_buttons_empty_list: "nav_buttons prefix 0 (total_pages 0) = []"
  by (simp add: nav_buttons_def total_pages_def ITEMS_PER_PAGE_def)

lemma empty_page:
  assumes "df = []" and "0 \<le> p" and "p < max 1 (total_pages (int (length df)))"
    and "int (length kb) = min ITEMS_PER_PAGE (int (length df) - p * ITEMS_PER_PAGE)"
  shows "kb = [] \<and> nav_buttons prefix p (total_pages (int (length df))) = []"
proof -
  have p: "p = 0" using assms(1-3) by (simp add: total_pages_def ITEMS_PER_PAGE_def)
  have "kb = []" using assms(1,4) p by (simp add: ITEMS_PER_PAGE_def)
  moreover have "nav_buttons prefix p (total_pages (int (length df))) = []"
    using assms(1) p by (simp add: nav_buttons_empty_list)
  ultimately show ?thesis by simp
qed

text \<open>
  C2, as stated: the page count is \<open>max(1, ceil(n / pageSize))\<close>. It is not for the empty
  list, where the ceiling division of the source gives 0 (the header then reads
  "Page 1/0").
\<close>

theorem total_pages_of_empty_list: "total_pages 0 \<noteq> spec_total_pages 0"
  by (simp add: total_pages_def spec_total_pages_def ITEMS_PER_PAGE_def)

text \<open>
  C2, amended: the page count is the ceiling of \<open>n / 10\<close>, which is the specification's
  count for every non-empty list and 0 for the empty one. For every page index \<open>p\<close> with
  \<open>0 \<le> p < max(1, total_pages)\<close> the stores menu and the colours menu are shown with
  \<open>min(10, n - 10 p)\<close> item rows, and for the empty list there is no item row and
  neither a Previous nor a Next button.
\<close>

theorem show_page_slice:
  "(stores (excel_data w) = Some df \<and> stores_page (user_data w (effective_user ev)) = Some p
      \<and> 0 \<le> p \<and> p < max 1 (total_pages (int (length df)))
    \<longrightarrow> (\<exists>kb. show_stores_page ev w =
            Inr (send_page ev (SelectStore (p + 1) (total_pages (int (length df))))
                  (Inline (with_nav kb (nav_buttons ''store'' p (total_pages (int (length df))))))
                  w)
          \<and> int (length kb) = min ITEMS_PER_PAGE (int (length df) - p * ITEMS_PER_PAGE)
          \<and> (df = [] \<longrightarrow> kb = [] \<and> nav_buttons ''store'' p (total_pages (int (length df))) = [])))
   \<and> (colors (excel_data w) = Some df \<and> colors_page (user_data w (effective_user ev)) = Some p
      \<and> 0 \<le> p \<and> p < max 1 (total_pages (int (length df)))
    \<longrightarrow> (\<exists>kb. show_colors_page ev w =
            Inr (send_page ev (SelectColor (p + 1) (total_pages (int (length df))))
                  (Inline (with_nav kb (nav_buttons ''color'' p (total_pages (int (length df))))))
                  w)
          \<and> int (length kb) = min ITEMS_PER_PAGE (int (length df) - p * ITEMS_PER_PAGE)
          \<and> (df = [] \<longrightarrow> kb = [] \<and> nav_buttons ''color'' p (total_pages (int (length df))) = [])))
   \<and> total_pages (int (length df)) = \<lceil>real_of_int (int (length df)) / real_of_int ITEMS_PER_PAGE\<rceil>
   \<and> (df \<noteq> [] \<longrightarrow> total_pages (int (length df)) = spec_total_pages (int (length df)))"
proof (intro conjI impI)
  assume h: "stores (excel_data w) = Some df \<and> stores_page (user_data w (effective_user ev)) = Some p
      \<and> 0 \<le> p \<and> p < max 1 (total_pages (int (length df)))"
  then obtain kb where kb: "item_rows ''store'' df (page_range p (int (length df))) = Inr kb"
    and len: "int (length kb) = min ITEMS_PER_PAGE (int (length df) - p * ITEMS_PER_PAGE)"
    using item_rows_page by blast
  have e: "df = [] \<longrightarrow> kb = [] \<and> nav_buttons ''store'' p (total_pages (int (length df))) = []"
    using h len empty_page [of df p kb "''store''"] by blast
  show "\<exists>kb. show_stores_page ev w =
            Inr (send_page ev (SelectStore (p + 1) (total_pages (int (length df))))
                  (Inline (with_nav kb (nav_buttons ''store'' p (total_pages (int (length df))))))
                  w)
          \<and> int (length kb) = min ITEMS_PER_PAGE (int (length df) - p * ITEMS_PER_PAGE)
          \<and> (df = [] \<longrightarrow> kb = [] \<and> nav_buttons ''store'' p (total_pages (int (length df))) = [])"
    using h kb len e by (intro exI [of _ kb]) (simp add: show_stores_page_def page_or_zero_def Let_def)
next
  assume h: "colors (excel_data w) = Some df \<and> colors_page (user_data w (effective_user ev)) = Some p
      \<and> 0 \<le> p \<and> p < max 1 (total_pages (int (length df)))"
  then obtain kb where kb: "item_rows ''color'' df (page_range p (int (length df))) = Inr kb"
    and len: "int (length kb) = min ITEMS_PER_PAGE (int (length df) - p * ITEMS_PER_PAGE)"
    using item_rows_page by blast
  have e: "df = [] \<longrightarrow> kb = [] \<and> nav_buttons ''color'' p (total_pages (int (length df))) = []"
    using h len empty_page [of df p kb "''color''"] by blast
  show "\<exists>kb. show_colors_page ev w =
            Inr (send_page ev (SelectColor (p + 1) (total_pages (int (length df))))
                  (Inline (with_nav kb (nav_buttons ''color'' p (total_pages (int (length df))))))
                  w)
          \<and> int (length kb) = min ITEMS_PER_PAGE (int (length df) - p * ITEMS_PER_PAGE)
          \<and> (df = [] \<longrightarrow> kb = [] \<and> nav_buttons ''color'' p (total_pages (int (length df))) = [])"
    using h kb len e by (intro exI [of _ kb]) (simp add: show_colors_page_def page_or_zero_def Let_def)
next
  show "total_pages (int (length df)) = \<lceil>real_of_int (int (length df)) / real_of_int ITEMS_PER_PAGE\<rceil>"
    by (rule total_pages_ceiling)
next
  assume "df \<noteq> []"
  then have "1 \<le> total_pages (int (length df))"
    by (cases df) (simp_all add: total_pages_def ITEMS_PER_PAGE_def)
  then show "total_pages (int (length df)) = spec_total_pages (int (length df))"
    using total_pages_ceiling [of "int (length df)"] by (simp add: spec_total_pages_def)
qed

lemma demo_sheet_length: "length demo_sheet = 12"
  by (simp add: demo_sheet_def)

theorem show_page_slice_witness:
  "(\<exists>kb. show_stores_page demo_event demo_world =
      Inr (send_page demo_event (SelectStore 2 2)
             (Inline (with_nav kb (nav_buttons ''store'' 1 2))) demo_world)
    \<and> length kb = 2)
   \<and> (\<exists>kb. show_colors_page demo_event demo_world =
      Inr (send_page demo_event (SelectColor 2 2)
             (Inline (with_nav kb (nav_buttons ''color'' 1 2))) demo_world)
    \<and> length kb = 2)
   \<and> total_pages 12 = spec_total_pages 12"
proof -
  have tp: "total_pages 12 = 2" by (simp add: total_pages_def ITEMS_PER_PAGE_def)
  have h: "stores (excel_data demo_world) = Some demo_sheet
     \<and> stores_page (user_data demo_world (effective_user demo_event)) = Some 1
     \<and> (0::int) \<le> 1 \<and> 1 < max 1 (total_pages (int (length demo_sheet)))"
    by (simp add: demo_world_def initial_world_def empty_context_def demo_sheet_length tp)
  have h2: "colors (excel_data demo_world) = Some demo_sheet
     \<and> colors_page (user_data demo_world (effective_user demo_event)) = Some 1
     \<and> (0::int) \<le> 1 \<and> 1 < max 1 (total_pages (int (length demo_sheet)))"
    by (simp add: demo_world_def initial_world_def empty_context_def demo_sheet_length tp)
  have ne: "demo_sheet \<noteq> []" using demo_sheet_length by auto
  show ?thesis
    using show_page_slice [of demo_world demo_sheet demo_event 1] h h2 ne
    by (simp add: demo_sheet_length tp ITEMS_PER_PAGE_def)
qed

section \<open>Selection tokens and the finalizing branch\<close>

lemma store_token:
  assumes "0 \<le> i"
  shows "token_index (''store_'' @ py_str i) = Inr i"
    and "''store_'' @ py_str i \<noteq> ''store_prev_page''"
    and "''store_'' @ py_str i \<noteq> ''store_next_page''"
  using token_index_selection [OF assms, of "''store''"] py_str_not_word [OF assms]
  by simp_all

lemma color_token:
  assumes "0 \<le> i"
  shows "token_index (''color_'' @ py_str i) = Inr i"
    and "''color_'' @ py_str i \<noteq> ''color_prev_page''"
    and "''color_'' @ py_str i \<noteq> ''color_next_page''"
  using token_index_selection [OF assms, of "''color''"] py_str_not_word [OF assms]
  by simp_all

lemma recipient_token:
  assumes "0 \<le> i"
  shows "token_index (''recipient_'' @ py_str i) = Inr i"
    and "''recipient_'' @ py_str i \<noteq> ''recipient_prev_page''"
    and "''recipient_'' @ py_str i \<noteq> ''recipient_next_page''"
    and "''recipient_'' @ py_str i \<noteq> ''recipient_skip''"
  using token_index_selection [OF assms, of "''recipient''"] py_str_not_word [OF assms]
  by simp_all

lemma store_choice_records:
  assumes "0 \<le> i" and "i < int (length df)"
    and "payload ev = CallbackQuery (''store_'' @ py_str i)"
    and "stores (excel_data w) = Some df"
    and "user_data_store w (effective_user ev) = Some s"
  shows "store_choice ev w =
     (emit ev (EditMessageText (SelectedStore (first_col (df ! nat i))) NoMarkup)
        (set_session ev (s\<lparr>store := Some (first_col (df ! nat i))\<rparr>) (emit ev Answer w)),
      Returned (Some SHOP_ID))"
  using assms(4,5) store_token(1) [OF assms(1)]
  by (simp add: store_choice_select [OF assms(3) store_token(2,3) [OF assms(1)]]
      iloc_first [OF assms(1,2)])

lemma color_choice_records:
  assumes "0 \<le> i" and "i < int (length df)"
    and "payload ev = CallbackQuery (''color_'' @ py_str i)"
    and "colors (excel_data w) = Some df"
    and "current_product (user_data w (effective_user ev)) = Some pr"
  shows "color_choice ev w =
     (emit ev (EditMessageText (SelectedColor (first_col (df ! nat i))) NoMarkup)
        (set_context ev
           (user_data w (effective_user ev)
              \<lparr>current_product := Some (pr\<lparr>color := Some (first_col (df ! nat i))\<rparr>)\<rparr>)
           (emit ev Answer w)),
      Returned (Some BADGE_QUANTITY))"
  using assms(4,5) color_token(1) [OF assms(1)]
  by (simp add: color_choice_select [OF assms(3) color_token(2,3) [OF assms(1)]]
      iloc_first [OF assms(1,2)])


text \<open>The finalizing branch for a selected recipient whose row has a contact column.\<close>

lemma recipient_choice_selected:
  assumes "0 \<le> i" and "i < int (length rdf)" and "other_cols (rdf ! nat i) \<noteq> []"
    and "payload ev = CallbackQuery (''recipient_'' @ py_str i)"
    and "recipients (excel_data w) = Some rdf"
    and "order_dataframe (user_data w (effective_user ev)) = Some df"
    and "requester_delivery ev"
  shows "recipient_choice ev w =
     (let user_id = effective_user ev;
          w4 = emit ev (SendDocument (int user_id) (output_filename user_id) OrderFileCaption)
                 (emit ev DeleteMessage
                    ((emit ev Answer w)\<lparr>files := (files w)(output_filename user_id \<mapsto> df)\<rparr>));
          recipient_name = first_col (rdf ! nat i)
      in case send_to_recipient ev recipient_name (hd (other_cols (rdf ! nat i))) w4 of
           Inr w5 \<Rightarrow> finish_order ev w5
         | Inl e \<Rightarrow>
             finish_order ev
               (emit ev (SendMessage user_id (CouldNotSend recipient_name) NoMarkup)
                  (emit ev LogError w4)))"
  using assms(5,6,7) recipient_token(1,4) [OF assms(1)]
  by (simp add: recipient_choice_select [OF assms(4) recipient_token(2,3) [OF assms(1)]]
      iloc_first [OF assms(1,2)] iloc_second [OF assms(1,2,3), unfolded One_nat_def] Let_def)


lemma finish_order_result:
  "finish_order ev w =
     (emit ev (SendMessage (effective_user ev) ThankYou NoMarkup)
        (w\<lparr>user_data_store := (user_data_store w)(effective_user ev := None)\<rparr>),
      Returned (Some END))"
  by (simp add: finish_order_def Let_def)

lemma send_to_recipient_sent:
  assumes "send_to_recipient ev recipient_name recipient_id w = Inr w5"
  shows "\<exists>chat_id un st.
           w5 = emit ev (SendMessage (effective_user ev) (OrderSentTo recipient_name) NoMarkup)
                  (emit ev (SendDocument chat_id (output_filename (effective_user ev))
                             (NewOrderFrom un st)) w)"
  using assms
  by (auto simp: send_to_recipient_def split: sum.splits option.splits if_splits)

lemma recipient_choice_names_row:
  assumes "0 \<le> i" and "i < int (length rdf)" and "other_cols (rdf ! nat i) \<noteq> []"
    and "payload ev = CallbackQuery (''recipient_'' @ py_str i)"
    and "recipients (excel_data w) = Some rdf"
    and "order_dataframe (user_data w (effective_user ev)) = Some df"
    and "requester_delivery ev"
  shows "snd (recipient_choice ev w) = Returned (Some END)"
    and "(effective_user ev, SendMessage (effective_user ev) (OrderSentTo (first_col (rdf ! nat i)))
            NoMarkup) \<in> set (outbox (fst (recipient_choice ev w)))
         \<or> (effective_user ev, SendMessage (effective_user ev)
              (CouldNotSend (first_col (rdf ! nat i))) NoMarkup)
            \<in> set (outbox (fst (recipient_choice ev w)))"
  by (auto simp: recipient_choice_selected [OF assms] finish_order_result Let_def
      split: sum.splits dest!: send_to_recipient_sent)

lemma recipient_choice_soft_failure:
  assumes "0 \<le> i" and "i < int (length rdf)" and "other_cols (rdf ! nat i) \<noteq> []"
    and "payload ev = CallbackQuery (''recipient_'' @ py_str i)"
    and "recipients (excel_data w) = Some rdf"
    and "order_dataframe (user_data w (effective_user ev)) = Some df"
    and "requester_delivery ev"
    and "\<not> recipient_delivery ev"
  shows "recipient_choice ev w =
     (emit ev (SendMessage (effective_user ev) ThankYou NoMarkup)
        ((emit ev (SendMessage (effective_user ev) (CouldNotSend (first_col (rdf ! nat i))) NoMarkup)
           (emit ev LogError
             (emit ev (SendDocument (int (effective_user ev)) (output_filename (effective_user ev))
                         OrderFileCaption)
               (emit ev DeleteMessage
                 ((emit ev Answer w)
                    \<lparr>files := (files w)(output_filename (effective_user ev) \<mapsto> df)\<rparr>)))))
         \<lparr>user_data_store := (user_data_store w)(effective_user ev := None)\<rparr>),
      Returned (Some END))"
proof -
  obtain e where "send_to_recipient ev (first_col (rdf ! nat i)) (hd (other_cols (rdf ! nat i)))
      (emit ev (SendDocument (int (effective_user ev)) (output_filename (effective_user ev))
                  OrderFileCaption)
         (emit ev DeleteMessage
            ((emit ev Answer w)
               \<lparr>files := (files w)(output_filename (effective_user ev) \<mapsto> df)\<rparr>))) = Inl e"
    using send_to_recipient_fails [OF assms(8)] by blast
  then show ?thesis
    by (simp add: recipient_choice_selected [OF assms(1-7)] finish_order_result Let_def)
qed

section \<open>Navigation\<close>

lemma demo_sheet_nth: "k < 12 \<Longrightarrow> demo_sheet ! k = Row (Num (int k)) [Num (100 + int k)]"
  by (simp add: demo_sheet_def)

lemma py_str_3: "py_str 3 = ''3''"
  by (simp add: py_str_def nat_str.simps digit_char_def)

lemma demo_press_simps [simp]:
  "effective_user (demo_press d) = 7" "payload (demo_press d) = CallbackQuery d"
  "requester_delivery (demo_press d)" "recipient_delivery (demo_press d)"
  "remote (demo_press d) = None"
  by (simp_all add: demo_press_def)

lemma demo_world_at_simps [simp]:
  "user_data (demo_world_at p st) u = \<lparr>stores_page = Some p, colors_page = Some p,
     recipients_page = Some p, current_product = Some demo_product,
     order_dataframe = Some demo_order\<rparr>"
  "conversations (demo_world_at p st) 7 = Some st"
  "user_data_store (demo_world_at p st) 7 = Some demo_session"
  "excel_data (demo_world_at p st) = \<lparr>stores = Some demo_sheet, colors = Some demo_sheet,
     recipients = Some demo_sheet\<rparr>"
  "outbox (demo_world_at p st) = []"
  "files (demo_world_at p st) = Map.empty"
  by (simp_all add: demo_world_at_def demo_world_def initial_world_def)

lemma nav_buttons_offer:
  "(Button Previous (prefix @ ''_prev_page'') \<in> set (nav_buttons prefix p pages)) = (0 < p)"
  "(Button Next (prefix @ ''_next_page'') \<in> set (nav_buttons prefix p pages)) = (p < pages - 1)"
  by (auto simp: nav_buttons_def)

text \<open>
  C1, as stated: Prev at page 0 and Next at the last page leave the page index unchanged and
  every navigation event keeps \<open>0 \<le> pageIndex < max(totalPages, 1)\<close>. The handlers do not
  clamp: with twelve rows (two pages) Prev at page 0 gives \<open>-1\<close> and Next at page 1, the
  last one, gives 2.
\<close>

theorem navigation_leaves_range:
  "total_pages (int (length demo_sheet)) = 2
   \<and> stores_page (user_data (demo_world_at 0 CHOOSE_STORE) 7) = Some 0
   \<and> stores_page (user_data (fst (store_choice (demo_press ''store_prev_page'')
                                    (demo_world_at 0 CHOOSE_STORE))) 7) = Some (- 1)
   \<and> colors_page (user_data (demo_world_at 1 PRODUCT_COLOR) 7) = Some 1
   \<and> colors_page (user_data (fst (color_choice (demo_press ''color_next_page'')
                                    (demo_world_at 1 PRODUCT_COLOR))) 7) = Some 2"
  using store_choice_prev [of "demo_press ''store_prev_page''" "demo_world_at 0 CHOOSE_STORE" 0]
    color_choice_next [of "demo_press ''color_next_page''" "demo_world_at 1 PRODUCT_COLOR" 1]
  by (simp add: demo_sheet_length total_pages_def ITEMS_PER_PAGE_def)

text \<open>
  C9: in each of the three paginated choice states a prev-page or next-page button leaves
  the conversation in the same choice state, whether the handler returns or raises; and
  a choice handler returns another state only for a token that is not a navigation token
  and carries an index (or, for recipients, is the skip token).
\<close>

theorem navigation_keeps_state:
  "((payload ev = CallbackQuery ''store_prev_page'' \<or> payload ev = CallbackQuery ''store_next_page'')
      \<and> conversations w (effective_user ev) = Some CHOOSE_STORE
    \<longrightarrow> conversations (handle_update ev w) (effective_user ev) = Some CHOOSE_STORE)
   \<and> ((payload ev = CallbackQuery ''color_prev_page'' \<or> payload ev = CallbackQuery ''color_next_page'')
      \<and> conversations w (effective_user ev) = Some PRODUCT_COLOR
    \<longrightarrow> conversations (handle_update ev w) (effective_user ev) = Some PRODUCT_COLOR)
   \<and> ((payload ev = CallbackQuery ''recipient_prev_page''
        \<or> payload ev = CallbackQuery ''recipient_next_page'')
      \<and> conversations w (effective_user ev) = Some CHOOSE_RECIPIENT
    \<longrightarrow> conversations (handle_update ev w) (effective_user ev) = Some CHOOSE_RECIPIENT)
   \<and> (snd (store_choice ev w) = Returned (Some st) \<and> st \<noteq> CHOOSE_STORE
    \<longrightarrow> (\<exists>d i. payload ev = CallbackQuery d \<and> d \<noteq> ''store_prev_page''
           \<and> d \<noteq> ''store_next_page'' \<and> token_index d = Inr i \<and> st = SHOP_ID))
   \<and> (snd (color_choice ev w) = Returned (Some st) \<and> st \<noteq> PRODUCT_COLOR
    \<longrightarrow> (\<exists>d i. payload ev = CallbackQuery d \<and> d \<noteq> ''color_prev_page''
           \<and> d \<noteq> ''color_next_page'' \<and> token_index d = Inr i \<and> st = BADGE_QUANTITY))
   \<and> (snd (recipient_choice ev w) = Returned (Some st) \<and> st \<noteq> CHOOSE_RECIPIENT
    \<longrightarrow> (\<exists>d. payload ev = CallbackQuery d \<and> d \<noteq> ''recipient_prev_page''
           \<and> d \<noteq> ''recipient_next_page''
           \<and> (d = ''recipient_skip'' \<or> (\<exists>i. token_index d = Inr i)) \<and> st = END))"
  using store_choice_nav_stays [of ev w] color_choice_nav_stays [of ev w]
    recipient_choice_nav_stays [of ev w]
    store_choice_advances [of ev w st] color_choice_advances [of ev w st]
    recipient_choice_advances [of ev w st]
  by blast

theorem navigation_keeps_state_witness:
  "conversations (handle_update (demo_press ''store_next_page'') (demo_world_at 0 CHOOSE_STORE)) 7
     = Some CHOOSE_STORE
   \<and> conversations (handle_update (demo_press ''color_prev_page'') (demo_world_at 1 PRODUCT_COLOR)) 7
     = Some PRODUCT_COLOR
   \<and> conversations (handle_update (demo_press ''recipient_next_page'')
        (demo_world_at 0 CHOOSE_RECIPIENT)) 7 = Some CHOOSE_RECIPIENT
   \<and> snd (store_choice (demo_press ''store_3'') (demo_world_at 0 CHOOSE_STORE))
     = Returned (Some SHOP_ID)
   \<and> (\<exists>d i. payload (demo_press ''store_3'') = CallbackQuery d \<and> d \<noteq> ''store_prev_page''
         \<and> d \<noteq> ''store_next_page'' \<and> token_index d = Inr i)"
proof -
  have s: "snd (store_choice (demo_press ''store_3'') (demo_world_at 0 CHOOSE_STORE))
     = Returned (Some SHOP_ID)"
    using store_choice_records [of 3 demo_sheet "demo_press ''store_3''"
        "demo_world_at 0 CHOOSE_STORE" demo_session]
    by (simp add: demo_sheet_length py_str_3)
  show ?thesis
    using s navigation_keeps_state [of "demo_press ''store_next_page''" "demo_world_at 0 CHOOSE_STORE"]
      navigation_keeps_state [of "demo_press ''color_prev_page''" "demo_world_at 1 PRODUCT_COLOR"]
      navigation_keeps_state [of "demo_press ''recipient_next_page''"
        "demo_world_at 0 CHOOSE_RECIPIENT"]
      navigation_keeps_state [of "demo_press ''store_3''" "demo_world_at 0 CHOOSE_STORE" SHOP_ID]
    by simp
qed

section \<open>Selection and delivery\<close>

text \<open>
  C10: for every valid row index \<open>i\<close> of the loaded sheet, the token \<open>store_i\<close> records
  the first cell of row \<open>i\<close> of the whole sheet as the store of the session, \<open>color_i\<close>
  records it as the colour of the draft, and \<open>recipient_i\<close> names it in the message about
  the second delivery; the result is the same whatever page index \<open>q\<close> the user's menu
  holds when the token arrives.
\<close>

theorem selection_ignores_page:
  "0 \<le> i \<and> i < int (length df) \<longrightarrow>
   (payload ev = CallbackQuery (''store_'' @ py_str i) \<and> stores (excel_data w) = Some df
      \<and> user_data_store w (effective_user ev) = Some s
    \<longrightarrow> (\<forall>q. snd (store_choice ev
                     (set_context ev (user_data w (effective_user ev)\<lparr>stores_page := q\<rparr>) w))
               = Returned (Some SHOP_ID)
            \<and> user_data_store
                 (fst (store_choice ev
                     (set_context ev (user_data w (effective_user ev)\<lparr>stores_page := q\<rparr>) w)))
                 (effective_user ev)
               = Some (s\<lparr>store := Some (first_col (df ! nat i))\<rparr>)))
   \<and> (payload ev = CallbackQuery (''color_'' @ py_str i) \<and> colors (excel_data w) = Some df
      \<and> current_product (user_data w (effective_user ev)) = Some pr
    \<longrightarrow> (\<forall>q. snd (color_choice ev
                     (set_context ev (user_data w (effective_user ev)\<lparr>colors_page := q\<rparr>) w))
               = Returned (Some BADGE_QUANTITY)
            \<and> current_product (user_data
                 (fst (color_choice ev
                     (set_context ev (user_data w (effective_user ev)\<lparr>colors_page := q\<rparr>) w)))
                 (effective_user ev))
               = Some (pr\<lparr>color := Some (first_col (df ! nat i))\<rparr>)))
   \<and> (payload ev = CallbackQuery (''recipient_'' @ py_str i) \<and> recipients (excel_data w) = Some df
      \<and> other_cols (df ! nat i) \<noteq> []
      \<and> order_dataframe (user_data w (effective_user ev)) = Some odf \<and> requester_delivery ev
    \<longrightarrow> (\<forall>q. snd (recipient_choice ev
                     (set_context ev (user_data w (effective_user ev)\<lparr>recipients_page := q\<rparr>) w))
               = Returned (Some END)
            \<and> ((effective_user ev,
                  SendMessage (effective_user ev) (OrderSentTo (first_col (df ! nat i))) NoMarkup)
                 \<in> set (outbox (fst (recipient_choice ev
                     (set_context ev (user_data w (effective_user ev)\<lparr>recipients_page := q\<rparr>) w))))
               \<or> (effective_user ev,
                  SendMessage (effective_user ev) (CouldNotSend (first_col (df ! nat i))) NoMarkup)
                 \<in> set (outbox (fst (recipient_choice ev
                     (set_context ev (user_data w (effective_user ev)\<lparr>recipients_page := q\<rparr>) w)))))))"
proof (intro impI conjI allI)
  fix q
  assume r: "0 \<le> i \<and> i < int (length df)"
    and h: "payload ev = CallbackQuery (''store_'' @ py_str i) \<and> stores (excel_data w) = Some df
      \<and> user_data_store w (effective_user ev) = Some s"
  let ?w = "set_context ev (user_data w (effective_user ev)\<lparr>stores_page := q\<rparr>) w"
  have e: "store_choice ev ?w =
     (emit ev (EditMessageText (SelectedStore (first_col (df ! nat i))) NoMarkup)
        (set_session ev (s\<lparr>store := Some (first_col (df ! nat i))\<rparr>) (emit ev Answer ?w)),
      Returned (Some SHOP_ID))"
    using r h by (intro store_choice_records) simp_all
  show "snd (store_choice ev ?w) = Returned (Some SHOP_ID)" by (simp add: e)
  show "user_data_store (fst (store_choice ev ?w)) (effective_user ev)
      = Some (s\<lparr>store := Some (first_col (df ! nat i))\<rparr>)" by (simp add: e)
next
  fix q
  assume r: "0 \<le> i \<and> i < int (length df)"
    and h: "payload ev = CallbackQuery (''color_'' @ py_str i) \<and> colors (excel_data w) = Some df
      \<and> current_product (user_data w (effective_user ev)) = Some pr"
  let ?w = "set_context ev (user_data w (effective_user ev)\<lparr>colors_page := q\<rparr>) w"
  have e: "color_choice ev ?w =
     (emit ev (EditMessageText (SelectedColor (first_col (df ! nat i))) NoMarkup)
        (set_context ev
           (user_data ?w (effective_user ev)
              \<lparr>current_product := Some (pr\<lparr>color := Some (first_col (df ! nat i))\<rparr>)\<rparr>)
           (emit ev Answer ?w)),
      Returned (Some BADGE_QUANTITY))"
    using r h by (intro color_choice_records) simp_all
  show "snd (color_choice ev ?w) = Returned (Some BADGE_QUANTITY)" by (simp add: e)
  show "current_product (user_data (fst (color_choice ev ?w)) (effective_user ev))
      = Some (pr\<lparr>color := Some (first_col (df ! nat i))\<rparr>)" by (simp add: e)
next
  fix q
  assume r: "0 \<le> i \<and> i < int (length df)"
    and h: "payload ev = CallbackQuery (''recipient_'' @ py_str i)
      \<and> recipients (excel_data w) = Some df \<and> other_cols (df ! nat i) \<noteq> []
      \<and> order_dataframe (user_data w (effective_user ev)) = Some odf \<and> requester_delivery ev"
  let ?w = "set_context ev (user_data w (effective_user ev)\<lparr>recipients_page := q\<rparr>) w"
  have a: "0 \<le> i" "i < int (length df)" "other_cols (df ! nat i) \<noteq> []"
    "payload ev = CallbackQuery (''recipient_'' @ py_str i)"
    "recipients (excel_data ?w) = Some df"
    "order_dataframe (user_data ?w (effective_user ev)) = Some odf" "requester_delivery ev"
    using r h by simp_all
  show "snd (recipient_choice ev ?w) = Returned (Some END)"
    by (rule recipient_choice_names_row(1) [OF a])
  show "(effective_user ev,
          SendMessage (effective_user ev) (OrderSentTo (first_col (df ! nat i))) NoMarkup)
         \<in> set (outbox (fst (recipient_choice ev ?w)))
       \<or> (effective_user ev,
          SendMessage (effective_user ev) (CouldNotSend (first_col (df ! nat i))) NoMarkup)
         \<in> set (outbox (fst (recipient_choice ev ?w)))"
    by (rule recipient_choice_names_row(2) [OF a])
qed

theorem selection_ignores_page_witness:
  "user_data_store
     (fst (store_choice (demo_press ''store_3'')
        (set_context (demo_press ''store_3'')
           (user_data (demo_world_at 0 CHOOSE_STORE) 7\<lparr>stores_page := Some 1\<rparr>)
           (demo_world_at 0 CHOOSE_STORE)))) 7
     = Some (demo_session\<lparr>store := Some (Num 3)\<rparr>)
   \<and> user_data_store
     (fst (store_choice (demo_press ''store_3'')
        (set_context (demo_press ''store_3'')
           (user_data (demo_world_at 0 CHOOSE_STORE) 7\<lparr>stores_page := Some 0\<rparr>)
           (demo_world_at 0 CHOOSE_STORE)))) 7
     = Some (demo_session\<lparr>store := Some (Num 3)\<rparr>)
   \<and> current_product (user_data
     (fst (color_choice (demo_press ''color_3'')
        (set_context (demo_press ''color_3'')
           (user_data (demo_world_at 0 PRODUCT_COLOR) 7\<lparr>colors_page := Some 1\<rparr>)
           (demo_world_at 0 PRODUCT_COLOR)))) 7)
     = Some (demo_product\<lparr>color := Some (Num 3)\<rparr>)
   \<and> snd (recipient_choice (demo_press ''recipient_3'')
        (set_context (demo_press ''recipient_3'')
           (user_data (demo_world_at 0 CHOOSE_RECIPIENT) 7\<lparr>recipients_page := Some 1\<rparr>)
           (demo_world_at 0 CHOOSE_RECIPIENT)))
     = Returned (Some END)"
  using selection_ignores_page [of 3 demo_sheet "demo_press ''store_3''"
      "demo_world_at 0 CHOOSE_STORE" demo_session demo_product demo_order]
    selection_ignores_page [of 3 demo_sheet "demo_press ''color_3''"
      "demo_world_at 0 PRODUCT_COLOR" demo_session demo_product demo_order]
    selection_ignores_page [of 3 demo_sheet "demo_press ''recipient_3''"
      "demo_world_at 0 CHOOSE_RECIPIENT" demo_session demo_product demo_order]
  by (simp add: demo_sheet_length demo_sheet_nth py_str_3)

text \<open>
  C6: when a recipient is selected and the delivery to the recipient fails, the handler
  still returns \<open>END\<close>: the requester has been sent the order file before, the failure is
  logged, the requester is told to forward the file by hand and is thanked, the session is
  removed, and the conversation is over. No exception leaves the handler.
\<close>

theorem recipient_failure_is_soft:
  assumes "0 \<le> i" and "i < int (length rdf)" and "other_cols (rdf ! nat i) \<noteq> []"
    and "payload ev = CallbackQuery (''recipient_'' @ py_str i)"
    and "recipients (excel_data w) = Some rdf"
    and "order_dataframe (user_data w (effective_user ev)) = Some df"
    and "requester_delivery ev"
    and "\<not> recipient_delivery ev"
    and "conversations w (effective_user ev) = Some CHOOSE_RECIPIENT"
  shows "snd (recipient_choice ev w) = Returned (Some END)
    \<and> outbox (fst (recipient_choice ev w)) =
        outbox w @ map (Pair (effective_user ev))
          [Answer, DeleteMessage,
           SendDocument (int (effective_user ev)) (output_filename (effective_user ev))
             OrderFileCaption,
           LogError,
           SendMessage (effective_user ev) (CouldNotSend (first_col (rdf ! nat i))) NoMarkup,
           SendMessage (effective_user ev) ThankYou NoMarkup]
    \<and> files (fst (recipient_choice ev w)) (output_filename (effective_user ev)) = Some df
    \<and> user_data_store (fst (recipient_choice ev w)) (effective_user ev) = None
    \<and> conversations (handle_update ev w) (effective_user ev) = None
    \<and> user_data_store (handle_update ev w) (effective_user ev) = None"
proof -
  note r = recipient_choice_soft_failure [OF assms(1-8)]
  have h: "state_handler CHOOSE_RECIPIENT (payload ev) = Some recipient_choice"
    by (simp add: assms(4) starts_with_def)
  have u: "handle_update ev w = update_state ev (recipient_choice ev w)"
    by (simp only: handle_update_def assms(9) h option.case)
  show ?thesis
    by (simp add: u r update_state_def emit_def)
qed

theorem recipient_failure_is_soft_witness:
  "snd (recipient_choice demo_failed_delivery (demo_world_at 0 CHOOSE_RECIPIENT))
     = Returned (Some END)
   \<and> outbox (fst (recipient_choice demo_failed_delivery (demo_world_at 0 CHOOSE_RECIPIENT))) =
       map (Pair 7)
         [Answer, DeleteMessage, SendDocument 7 (output_filename 7) OrderFileCaption, LogError,
          SendMessage 7 (CouldNotSend (Num 3)) NoMarkup, SendMessage 7 ThankYou NoMarkup]
   \<and> conversations (handle_update demo_failed_delivery (demo_world_at 0 CHOOSE_RECIPIENT)) 7 = None
   \<and> user_data_store (handle_update demo_failed_delivery (demo_world_at 0 CHOOSE_RECIPIENT)) 7
       = None"
  using recipient_failure_is_soft [of 3 demo_sheet demo_failed_delivery
      "demo_world_at 0 CHOOSE_RECIPIENT" demo_order]
  by (simp add: demo_failed_delivery_def demo_sheet_length demo_sheet_nth py_str_3)

section \<open>The next action\<close>

lemma demo_text_simps [simp]:
  "effective_user (demo_text s) = 7" "payload (demo_text s) = TextMessage s"
  "requester_delivery (demo_text s)" "recipient_delivery (demo_text s)"
  "remote (demo_text s) = None"
  by (simp_all add: demo_text_def)

lemma demo_command_simps [simp]:
  "effective_user (demo_command c) = 7" "payload (demo_command c) = Command c"
  "requester_delivery (demo_command c)" "recipient_delivery (demo_command c)"
  "remote (demo_command c) = None"
  by (simp_all add: demo_command_def)

lemma show_colors_page_first:
  assumes "colors (excel_data w) = Some df"
    and "colors_page (user_data w (effective_user ev)) = Some 0"
  shows "\<exists>msg m. show_colors_page ev w = Inr (send_page ev msg m w)"
proof -
  have "(0::int) < max 1 (total_pages (int (length df)))"
    by (simp add: less_max_iff_disj)
  then obtain kb where "item_rows ''color'' df (page_range 0 (int (length df))) = Inr kb"
    using item_rows_page [of 0 df "''color''"] by auto
  then show ?thesis
    using assms by (simp add: show_colors_page_def page_or_zero_def Let_def) blast
qed

lemma clone_without_color_complete:
  assumes "image_file_id lp = Some im" and "code lp = Some cd" and "badge_quantity lp = Some bq"
    and "size_range lp = Some sr" and "price lp = Some pr"
  shows "clone_without_color lp =
     Inr \<lparr>image_file_id = Some im, code = Some cd, color = None, badge_quantity = Some bq,
          size_range = Some sr, price = Some pr\<rparr>"
  using assms by (simp add: clone_without_color_def)

text \<open>
  C7: "Add same product with different color", sent when the last confirmed product has its
  image, code, badge quantity, size range and price, makes a fresh draft with exactly these
  five values of that product (the image handle is reused) and no colour, sets the colour
  page index to 0, leaves the confirmed products alone, and moves the conversation to the
  colour selection.
\<close>

theorem same_product_new_color:
  assumes "payload ev = TextMessage ''Add same product with different color''"
    and "user_data_store w (effective_user ev) = Some s"
    and "products s = Some ps" and "ps \<noteq> []"
    and "image_file_id (last ps) = Some im" and "code (last ps) = Some cd"
    and "badge_quantity (last ps) = Some bq" and "size_range (last ps) = Some sr"
    and "price (last ps) = Some pr"
    and "colors (excel_data w) = Some df"
    and "conversations w (effective_user ev) = Some NEXT_ACTION"
  shows "snd (process_next_action ev w) = Returned (Some PRODUCT_COLOR)
    \<and> current_product (user_data (fst (process_next_action ev w)) (effective_user ev)) =
        Some \<lparr>image_file_id = image_file_id (last ps), code = code (last ps), color = None,
              badge_quantity = badge_quantity (last ps), size_range = size_range (last ps),
              price = price (last ps)\<rparr>
    \<and> colors_page (user_data (fst (process_next_action ev w)) (effective_user ev)) = Some 0
    \<and> user_data_store (fst (process_next_action ev w)) = user_data_store w
    \<and> conversations (handle_update ev w) (effective_user ev) = Some PRODUCT_COLOR"
proof -
  let ?draft = "\<lparr>image_file_id = Some im, code = Some cd, color = None, badge_quantity = Some bq,
          size_range = Some sr, price = Some pr\<rparr>"
  let ?w1 = "set_context ev
     (user_data w (effective_user ev)\<lparr>current_product := Some ?draft, colors_page := Some 0\<rparr>) w"
  obtain msg m where sh: "show_colors_page ev ?w1 = Inr (send_page ev msg m ?w1)"
    using show_colors_page_first [of ?w1 df ev] assms(10) by auto
  have r: "process_next_action ev w = (send_page ev msg m ?w1, Returned (Some PRODUCT_COLOR))"
    using assms(1-4) clone_without_color_complete [OF assms(5-9)] sh
    by (simp add: process_next_action_def Let_def)
  have h: "state_handler NEXT_ACTION (payload ev) = Some process_next_action"
    by (simp add: assms(1))
  have u: "handle_update ev w = update_state ev (process_next_action ev w)"
    by (simp only: handle_update_def assms(11) h option.case)
  show ?thesis
    using assms(5-9) by (simp add: u r update_state_def)
qed

theorem same_product_new_color_witness:
  "snd (process_next_action (demo_text ''Add same product with different color'')
          (demo_world_at 1 NEXT_ACTION)) = Returned (Some PRODUCT_COLOR)
   \<and> current_product (user_data
        (fst (process_next_action (demo_text ''Add same product with different color'')
               (demo_world_at 1 NEXT_ACTION))) 7) =
       Some \<lparr>image_file_id = Some ''photo1'', code = Some ''C1'', color = None,
             badge_quantity = Some ''50'', size_range = Some ''S-XL'', price = Some ''9.99''\<rparr>
   \<and> colors_page (user_data
        (fst (process_next_action (demo_text ''Add same product with different color'')
               (demo_world_at 1 NEXT_ACTION))) 7) = Some 0"
  using same_product_new_color [of "demo_text ''Add same product with different color''"
      "demo_world_at 1 NEXT_ACTION" demo_session "[demo_product]" "''photo1''" "''C1''" "''50''"
      "''S-XL''" "''9.99''" demo_sheet]
  by (simp add: demo_session_def demo_product_def)

section \<open>Cancelling\<close>


lemma no_state_handler_for_command: "state_handler st (Command c) = None"
  by (cases st) simp_all

lemma cancel_result:
  assumes "payload ev = Command ''cancel''"
  shows "cancel ev w =
     (emit ev (ReplyText Cancelled NoMarkup)
        (w\<lparr>user_data_store := (user_data_store w)(effective_user ev := None)\<rparr>),
      Returned (Some END))"
  using assms by (simp add: cancel_def Let_def)

text \<open>
  C8, as stated: Cancel discards the whole session of the user, the in-progress draft
  included. The draft lives in \<^verbatim>\<open>context.user_data\<close>, which \<^verbatim>\<open>cancel\<close> does not touch:
  after \<^verbatim>\<open>/cancel\<close> in the confirmation state the conversation is over and the entry of
  \<^verbatim>\<open>user_data_store\<close> is gone, but the draft is still there.
\<close>

theorem cancel_keeps_draft:
  "conversations (handle_update (demo_command ''cancel'') (demo_world_at 0 CONFIRM_PRODUCT)) 7 = None
   \<and> user_data_store (handle_update (demo_command ''cancel'') (demo_world_at 0 CONFIRM_PRODUCT)) 7
       = None
   \<and> current_product
       (user_data (handle_update (demo_command ''cancel'') (demo_world_at 0 CONFIRM_PRODUCT)) 7)
       = Some demo_product"
  by (simp add: handle_update_def update_state_def cancel_result)

text \<open>
  C8, amended: \<^verbatim>\<open>/cancel\<close> in any state of a conversation removes the user's entry of
  \<^verbatim>\<open>user_data_store\<close> (the collected answers and the accumulated products), tells the
  user so, and ends the conversation; \<^verbatim>\<open>context.user_data\<close> (the in-progress draft,
  the page indices, the order data frame), the cache and the files are left as they were.
\<close>

theorem cancel_ends_conversation:
  assumes "payload ev = Command ''cancel''"
    and "conversations w (effective_user ev) = Some st"
  shows "conversations (handle_update ev w) (effective_user ev) = None
    \<and> user_data_store (handle_update ev w) (effective_user ev) = None
    \<and> user_data (handle_update ev w) = user_data w
    \<and> excel_data (handle_update ev w) = excel_data w
    \<and> files (handle_update ev w) = files w
    \<and> outbox (handle_update ev w) = outbox w @ [(effective_user ev, ReplyText Cancelled NoMarkup)]"
proof -
  have u: "handle_update ev w = update_state ev (cancel ev w)"
    by (simp add: handle_update_def assms no_state_handler_for_command)
  show ?thesis
    by (simp add: u cancel_result [OF assms(1)] update_state_def)
qed

theorem cancel_ends_conversation_witness:
  "conversations (handle_update (demo_command ''cancel'') (demo_world_at 1 PRODUCT_COLOR)) 7 = None
   \<and> user_data_store (handle_update (demo_command ''cancel'') (demo_world_at 1 PRODUCT_COLOR)) 7
       = None
   \<and> outbox (handle_update (demo_command ''cancel'') (demo_world_at 1 PRODUCT_COLOR))
       = [(7, ReplyText Cancelled NoMarkup)]"
  using cancel_ends_conversation [of "demo_command ''cancel''" "demo_world_at 1 PRODUCT_COLOR"
      PRODUCT_COLOR]
  by simp

section \<open>Finalizing an order\<close>





lemma demo_recipient_rows:
  "\<exists>kb. recipient_rows demo_sheet (page_range 0 12) = Inr kb"
  by (simp add: page_range_def ITEMS_PER_PAGE_def upto_rec1 iloc_def demo_sheet_length
      demo_sheet_nth)




section \<open>Loading once\<close>

lemma process_name_loaded:
  assumes "payload ev = TextMessage t"
    and "user_data_store w (effective_user ev) = Some s"
    and "stores (excel_data w) = Some df"
  shows "process_name ev w =
     (emit ev (ReplyText Loading NoMarkup) (set_session ev (s\<lparr>name := Some t\<rparr>) w),
      Raised ValueError)"
  using assms by (simp add: process_name_def Let_def)

lemma process_name_load_fails:
  assumes "payload ev = TextMessage t"
    and "user_data_store w (effective_user ev) = Some s"
    and "stores (excel_data w) = None"
    and "remote ev = None"
  shows "snd (process_name ev w) = Returned (Some END)"
    and "excel_data (fst (process_name ev w)) = excel_data w"
    and "fetches (fst (process_name ev w)) = fetches w + 1"
    and "(effective_user ev, ReplyText LoadFailed NoMarkup) \<in> set (outbox (fst (process_name ev w)))"
  using assms by (simp_all add: process_name_def load_excel_data_def Let_def)

lemma failed_load_is_retried:
  "stores (excel_data (run (take 2 offline_then_online) initial_world)) = None
   \<and> conversations (run (take 2 offline_then_online) initial_world) 7 = None
   \<and> fetches (run (take 2 offline_then_online) initial_world) = 1
   \<and> fetches (run offline_then_online initial_world) = 2
   \<and> conversations (run offline_then_online initial_world) 7 = Some CHOOSE_STORE"
  by code_simp

text \<open>
  C3 at its failing input: the first conversation of the process loads the sheets (one
  fetch) and reaches the store menu. When the next user gives a name, the already-loaded
  test \<^verbatim>\<open>not excel_data['stores']\<close> asks a data frame for its truth value and raises
  \<^verbatim>\<open>ValueError\<close>: nothing is fetched again, but the handler does not return, the
  user is shown no store menu, and the conversation stays in the name state.
\<close>

theorem loaded_check_raises:
  "stores (excel_data (run first_conversation initial_world)) = Some demo_sheet
   \<and> fetches (run first_conversation initial_world) = 1
   \<and> conversations (run first_conversation initial_world) 7 = Some CHOOSE_STORE
   \<and> snd (process_name (user_event 8 (TextMessage ''Bob''))
            (run (first_conversation @ [user_event 8 (Command ''start'')]) initial_world))
       = Raised ValueError
   \<and> conversations (run (first_conversation @ second_conversation) initial_world) 8 = Some NAME
   \<and> fetches (run (first_conversation @ second_conversation) initial_world) = 1
   \<and> outbox (run (first_conversation @ second_conversation) initial_world)
       = outbox (run first_conversation initial_world)
         @ [(8, ReplyText Welcome NoMarkup), (8, ReplyText Loading NoMarkup),
            (8, LogException ValueError)]"
  by code_simp

section \<open>The products list\<close>

lemma confirm_yes_appends:
  assumes "payload ev = CallbackQuery ''confirm_yes''"
    and "user_data_store w (effective_user ev) = Some s"
    and "products s = Some ps"
    and "current_product (user_data w (effective_user ev)) = Some draft"
  shows "snd (confirm_product ev w) = Returned (Some NEXT_ACTION)"
    and "user_data_store (fst (confirm_product ev w)) (effective_user ev)
         = Some (s\<lparr>products := Some (ps @ [draft])\<rparr>)"
    and "current_product (user_data (fst (confirm_product ev w)) (effective_user ev))
         = Some empty_product"
  using assms by (simp_all add: confirm_product_def Let_def)

lemma other_tokens_keep_products:
  assumes "payload ev = CallbackQuery d" and "d \<noteq> ''confirm_yes''"
  shows "user_data_store (fst (confirm_product ev w)) = user_data_store w"
  using assms
  by (auto simp: confirm_product_def Let_def split: sum.splits dest!: show_colors_page_sends)

text \<open>
  C4 at its failing input: after a rejection, "Start New Product" clears the draft and then
  raises \<^verbatim>\<open>UnboundLocalError\<close> (the local \<^verbatim>\<open>reply_markup\<close> was never assigned in that
  branch), so the conversation stays in the confirmation state with an empty draft. A
  confirmation that arrives now appends the empty draft to the products.
\<close>

theorem empty_draft_is_appended:
  "conversations (run (butlast restart_then_confirm) initial_world) 7 = Some CONFIRM_PRODUCT
   \<and> current_product (user_data (run (butlast restart_then_confirm) initial_world) 7)
       = Some empty_product
   \<and> (7, LogException UnboundLocalError)
       \<in> set (outbox (run (butlast restart_then_confirm) initial_world))
   \<and> map_option products (user_data_store (run restart_then_confirm initial_world) 7)
       = Some (Some [empty_product])
   \<and> conversations (run restart_then_confirm initial_world) 7 = Some NEXT_ACTION"
  by code_simp

section \<open>What the menus offer\<close>

lemma menu_buttons_send_page [simp]:
  "menu_buttons (send_page ev msg m w) = markup_buttons m"
  by (simp add: menu_buttons_def send_page_def)

lemma item_rows_no_nav:
  "item_rows prefix df idxs = Inr kb \<Longrightarrow>
   Button Previous t \<notin> set (concat kb) \<and> Button Next t \<notin> set (concat kb)"
  by (induction idxs arbitrary: kb) (auto split: sum.splits)

lemma recipient_rows_no_nav:
  "recipient_rows df idxs = Inr kb \<Longrightarrow>
   Button Previous t \<notin> set (concat kb) \<and> Button Next t \<notin> set (concat kb)"
  by (induction idxs arbitrary: kb) (auto split: sum.splits)

lemma concat_with_nav: "concat (with_nav kb nav) = concat kb @ nav"
  by (simp add: with_nav_def)

lemma recipient_rows_valid:
  "\<forall>i \<in> set idxs. 0 \<le> i \<and> i < int (length df) \<and> other_cols (df ! nat i) \<noteq> [] \<Longrightarrow>
   \<exists>kb. recipient_rows df idxs = Inr kb"
  by (induction idxs) (auto simp: iloc_first iloc_second [unfolded One_nat_def])

lemma show_stores_page_offers:
  assumes "stores (excel_data w) = Some df"
    and "stores_page (user_data w (effective_user ev)) = Some p"
    and "show_stores_page ev w = Inr w'"
  shows "(Button Previous ''store_prev_page'' \<in> set (menu_buttons w')) = (0 < p)"
    and "(Button Next ''store_next_page'' \<in> set (menu_buttons w'))
         = (p < total_pages (int (length df)) - 1)"
  using assms item_rows_no_nav [of "''store''" df "page_range p (int (length df))"]
    nav_buttons_offer [of "''store''" p "total_pages (int (length df))"]
  by (auto simp: show_stores_page_def page_or_zero_def Let_def concat_with_nav
      split: sum.splits)

lemma store_choice_offered_press:
  assumes "stores (excel_data w) = Some df"
    and "stores_page (user_data w (effective_user ev)) = Some p"
    and "0 \<le> p" and "p < total_pages (int (length df))"
    and "show_stores_page ev w = Inr w'"
    and "effective_user ev' = effective_user ev"
    and "payload ev' = CallbackQuery ''store_prev_page''
           \<and> Button Previous ''store_prev_page'' \<in> set (menu_buttons w')
         \<or> payload ev' = CallbackQuery ''store_next_page''
           \<and> Button Next ''store_next_page'' \<in> set (menu_buttons w')"
  shows "\<exists>p'. stores_page (user_data (fst (store_choice ev' w')) (effective_user ev)) = Some p'
           \<and> 0 \<le> p' \<and> p' < total_pages (int (length df))"
proof -
  obtain msg m where w': "w' = send_page ev msg m w"
    using show_stores_page_sends [OF assms(5)] by blast
  have pg: "stores_page (user_data w' (effective_user ev')) = Some p"
    using assms(2,6) by (simp add: w')
  from assms(7) show ?thesis
  proof
    assume h: "payload ev' = CallbackQuery ''store_prev_page''
           \<and> Button Previous ''store_prev_page'' \<in> set (menu_buttons w')"
    then have "0 < p" using show_stores_page_offers(1) [OF assms(1,2,5)] by simp
    moreover have "stores_page (user_data (fst (store_choice ev' w')) (effective_user ev')) = Some (p - 1)"
      using store_choice_prev [OF _ pg] h by simp
    ultimately show ?thesis using assms(4,6) by simp
  next
    assume h: "payload ev' = CallbackQuery ''store_next_page''
           \<and> Button Next ''store_next_page'' \<in> set (menu_buttons w')"
    then have "p < total_pages (int (length df)) - 1"
      using show_stores_page_offers(2) [OF assms(1,2,5)] by simp
    moreover have "stores_page (user_data (fst (store_choice ev' w')) (effective_user ev')) = Some (p + 1)"
      using store_choice_next [OF _ pg] h by simp
    ultimately show ?thesis using assms(3,6) by simp
  qed
qed

lemma show_colors_page_offers:
  assumes "colors (excel_data w) = Some df"
    and "colors_page (user_data w (effective_user ev)) = Some p"
    and "show_colors_page ev w = Inr w'"
  shows "(Button Previous ''color_prev_page'' \<in> set (menu_buttons w')) = (0 < p)"
    and "(Button Next ''color_next_page'' \<in> set (menu_buttons w'))
         = (p < total_pages (int (length df)) - 1)"
  using assms item_rows_no_nav [of "''color''" df "page_range p (int (length df))"]
    nav_buttons_offer [of "''color''" p "total_pages (int (length df))"]
  by (auto simp: show_colors_page_def page_or_zero_def Let_def concat_with_nav
      split: sum.splits)

lemma color_choice_offered_press:
  assumes "colors (excel_data w) = Some df"
    and "colors_page (user_data w (effective_user ev)) = Some p"
    and "0 \<le> p" and "p < total_pages (int (length df))"
    and "show_colors_page ev w = Inr w'"
    and "effective_user ev' = effective_user ev"
    and "payload ev' = CallbackQuery ''color_prev_page''
           \<and> Button Previous ''color_prev_page'' \<in> set (menu_buttons w')
         \<or> payload ev' = CallbackQuery ''color_next_page''
           \<and> Button Next ''color_next_page'' \<in> set (menu_buttons w')"
  shows "\<exists>p'. colors_page (user_data (fst (color_choice ev' w')) (effective_user ev)) = Some p'
           \<and> 0 \<le> p' \<and> p' < total_pages (int (length df))"
proof -
  obtain msg m where w': "w' = send_page ev msg m w"
    using show_colors_page_sends [OF assms(5)] by blast
  have pg: "colors_page (user_data w' (effective_user ev')) = Some p"
    using assms(2,6) by (simp add: w')
  from assms(7) show ?thesis
  proof
    assume h: "payload ev' = CallbackQuery ''color_prev_page''
           \<and> Button Previous ''color_prev_page'' \<in> set (menu_buttons w')"
    then have "0 < p" using show_colors_page_offers(1) [OF assms(1,2,5)] by simp
    moreover have "colors_page (user_data (fst (color_choice ev' w')) (effective_user ev')) = Some (p - 1)"
      using color_choice_prev [OF _ pg] h by simp
    ultimately show ?thesis using assms(4,6) by simp
  next
    assume h: "payload ev' = CallbackQuery ''color_next_page''
           \<and> Button Next ''color_next_page'' \<in> set (menu_buttons w')"
    then have "p < total_pages (int (length df)) - 1"
      using show_colors_page_offers(2) [OF assms(1,2,5)] by simp
    moreover have "colors_page (user_data (fst (color_choice ev' w')) (effective_user ev')) = Some (p + 1)"
      using color_choice_next [OF _ pg] h by simp
    ultimately show ?thesis using assms(3,6) by simp
  qed
qed

lemma show_recipients_page_offers:
  assumes "recipients (excel_data w) = Some df"
    and "recipients_page (user_data w (effective_user ev)) = Some p"
    and "show_recipients_page ev w = Inr w'"
  shows "(Button Previous ''recipient_prev_page'' \<in> set (menu_buttons w')) = (0 < p)"
    and "(Button Next ''recipient_next_page'' \<in> set (menu_buttons w'))
         = (p < total_pages (int (length df)) - 1)"
  using assms recipient_rows_no_nav [of  df "page_range p (int (length df))"]
    nav_buttons_offer [of "''recipient''" p "total_pages (int (length df))"]
  by (auto simp: show_recipients_page_def page_or_zero_def Let_def concat_with_nav
      split: sum.splits)

lemma recipient_choice_offered_press:
  assumes "recipients (excel_data w) = Some df"
    and "recipients_page (user_data w (effective_user ev)) = Some p"
    and "0 \<le> p" and "p < total_pages (int (length df))"
    and "show_recipients_page ev w = Inr w'"
    and "effective_user ev' = effective_user ev"
    and "payload ev' = CallbackQuery ''recipient_prev_page''
           \<and> Button Previous ''recipient_prev_page'' \<in> set (menu_buttons w')
         \<or> payload ev' = CallbackQuery ''recipient_next_page''
           \<and> Button Next ''recipient_next_page'' \<in> set (menu_buttons w')"
  shows "\<exists>p'. recipients_page (user_data (fst (recipient_choice ev' w')) (effective_user ev)) = Some p'
           \<and> 0 \<le> p' \<and> p' < total_pages (int (length df))"
proof -
  obtain msg m where w': "w' = send_page ev msg m w"
    using show_recipients_page_sends [OF assms(5)] by blast
  have pg: "recipients_page (user_data w' (effective_user ev')) = Some p"
    using assms(2,6) by (simp add: w')
  from assms(7) show ?thesis
  proof
    assume h: "payload ev' = CallbackQuery ''recipient_prev_page''
           \<and> Button Previous ''recipient_prev_page'' \<in> set (menu_buttons w')"
    then have "0 < p" using show_recipients_page_offers(1) [OF assms(1,2,5)] by simp
    moreover have "recipients_page (user_data (fst (recipient_choice ev' w')) (effective_user ev')) = Some (p - 1)"
      using recipient_choice_prev [OF _ pg] h by simp
    ultimately show ?thesis using assms(4,6) by simp
  next
    assume h: "payload ev' = CallbackQuery ''recipient_next_page''
           \<and> Button Next ''recipient_next_page'' \<in> set (menu_buttons w')"
    then have "p < total_pages (int (length df)) - 1"
      using show_recipients_page_offers(2) [OF assms(1,2,5)] by simp
    moreover have "recipients_page (user_data (fst (recipient_choice ev' w')) (effective_user ev')) = Some (p + 1)"
      using recipient_choice_next [OF _ pg] h by simp
    ultimately show ?thesis using assms(3,6) by simp
  qed
qed


lemma show_stores_page_shown:
  assumes "stores (excel_data w) = Some df"
    and "stores_page (user_data w (effective_user ev)) = Some p"
    and "0 \<le> p" and "p < max 1 (total_pages (int (length df)))"
  shows "\<exists>w'. show_stores_page ev w = Inr w'"
proof -
  obtain kb where "item_rows ''store'' df (page_range p (int (length df))) = Inr kb"
    using item_rows_page [OF assms(3,4)] by blast
  then show ?thesis
    using assms(1,2) by (simp add: show_stores_page_def page_or_zero_def Let_def)
qed

text \<open>
  C1, amended: in each of the three menus a Prev event lowers and a Next event raises the
  page index by exactly one, at every index and so also at the boundaries. The menu that
  \<^verbatim>\<open>show_stores_page\<close>, \<^verbatim>\<open>show_colors_page\<close> or \<^verbatim>\<open>show_recipients_page\<close> sends for page
  \<open>p\<close> of the loaded sheet has the Previous button exactly when \<open>p > 0\<close> and the Next
  button exactly when \<open>p < total_pages - 1\<close>, with \<open>total_pages\<close> the page count of that
  sheet. So when the menu was sent for a page with \<open>0 \<le> p < total_pages\<close> and the user
  presses a navigation button that this menu has, the page index after the press is again
  in \<open>0 \<le> p' < total_pages\<close>.
\<close>

theorem navigation_moves_one_page:
  "(payload ev = CallbackQuery ''store_prev_page''
      \<and> stores_page (user_data w (effective_user ev)) = Some p
    \<longrightarrow> stores_page (user_data (fst (store_choice ev w)) (effective_user ev)) = Some (p - 1))
   \<and> (payload ev = CallbackQuery ''store_next_page''
      \<and> stores_page (user_data w (effective_user ev)) = Some p
    \<longrightarrow> stores_page (user_data (fst (store_choice ev w)) (effective_user ev)) = Some (p + 1))
   \<and> (payload ev = CallbackQuery ''color_prev_page''
      \<and> colors_page (user_data w (effective_user ev)) = Some p
    \<longrightarrow> colors_page (user_data (fst (color_choice ev w)) (effective_user ev)) = Some (p - 1))
   \<and> (payload ev = CallbackQuery ''color_next_page''
      \<and> colors_page (user_data w (effective_user ev)) = Some p
    \<longrightarrow> colors_page (user_data (fst (color_choice ev w)) (effective_user ev)) = Some (p + 1))
   \<and> (payload ev = CallbackQuery ''recipient_prev_page''
      \<and> recipients_page (user_data w (effective_user ev)) = Some p
    \<longrightarrow> recipients_page (user_data (fst (recipient_choice ev w)) (effective_user ev)) = Some (p - 1))
   \<and> (payload ev = CallbackQuery ''recipient_next_page''
      \<and> recipients_page (user_data w (effective_user ev)) = Some p
    \<longrightarrow> recipients_page (user_data (fst (recipient_choice ev w)) (effective_user ev)) = Some (p + 1))
   \<and> (stores (excel_data w) = Some df \<and> stores_page (user_data w (effective_user ev)) = Some p
      \<and> show_stores_page ev w = Inr w'
    \<longrightarrow> (Button Previous ''store_prev_page'' \<in> set (menu_buttons w')) = (0 < p)
      \<and> (Button Next ''store_next_page'' \<in> set (menu_buttons w'))
          = (p < total_pages (int (length df)) - 1)
      \<and> (0 \<le> p \<and> p < total_pages (int (length df))
          \<and> effective_user ev' = effective_user ev
          \<and> (payload ev' = CallbackQuery ''store_prev_page''
                \<and> Button Previous ''store_prev_page'' \<in> set (menu_buttons w')
              \<or> payload ev' = CallbackQuery ''store_next_page''
                \<and> Button Next ''store_next_page'' \<in> set (menu_buttons w'))
        \<longrightarrow> (\<exists>p'. stores_page (user_data (fst (store_choice ev' w')) (effective_user ev)) = Some p'
               \<and> 0 \<le> p' \<and> p' < total_pages (int (length df)))))
   \<and> (colors (excel_data w) = Some df \<and> colors_page (user_data w (effective_user ev)) = Some p
      \<and> show_colors_page ev w = Inr w'
    \<longrightarrow> (Button Previous ''color_prev_page'' \<in> set (menu_buttons w')) = (0 < p)
      \<and> (Button Next ''color_next_page'' \<in> set (menu_buttons w'))
          = (p < total_pages (int (length df)) - 1)
      \<and> (0 \<le> p \<and> p < total_pages (int (length df))
          \<and> effective_user ev' = effective_user ev
          \<and> (payload ev' = CallbackQuery ''color_prev_page''
                \<and> Button Previous ''color_prev_page'' \<in> set (menu_buttons w')
              \<or> payload ev' = CallbackQuery ''color_next_page''
                \<and> Button Next ''color_next_page'' \<in> set (menu_buttons w'))
        \<longrightarrow> (\<exists>p'. colors_page (user_data (fst (color_choice ev' w')) (effective_user ev)) = Some p'
               \<and> 0 \<le> p' \<and> p' < total_pages (int (length df)))))
   \<and> (recipients (excel_data w) = Some df
      \<and> recipients_page (user_data w (effective_user ev)) = Some p
      \<and> show_recipients_page ev w = Inr w'
    \<longrightarrow> (Button Previous ''recipient_prev_page'' \<in> set (menu_buttons w')) = (0 < p)
      \<and> (Button Next ''recipient_next_page'' \<in> set (menu_buttons w'))
          = (p < total_pages (int (length df)) - 1)
      \<and> (0 \<le> p \<and> p < total_pages (int (length df))
          \<and> effective_user ev' = effective_user ev
          \<and> (payload ev' = CallbackQuery ''recipient_prev_page''
                \<and> Button Previous ''recipient_prev_page'' \<in> set (menu_buttons w')
              \<or> payload ev' = CallbackQuery ''recipient_next_page''
                \<and> Button Next ''recipient_next_page'' \<in> set (menu_buttons w'))
        \<longrightarrow> (\<exists>p'. recipients_page (user_data (fst (recipient_choice ev' w')) (effective_user ev))
                 = Some p'
               \<and> 0 \<le> p' \<and> p' < total_pages (int (length df)))))"
proof (intro conjI impI)
  show "stores_page (user_data (fst (store_choice ev w)) (effective_user ev)) = Some (p - 1)"
    if "payload ev = CallbackQuery ''store_prev_page''
      \<and> stores_page (user_data w (effective_user ev)) = Some p"
    using that store_choice_prev by blast
  show "stores_page (user_data (fst (store_choice ev w)) (effective_user ev)) = Some (p + 1)"
    if "payload ev = CallbackQuery ''store_next_page''
      \<and> stores_page (user_data w (effective_user ev)) = Some p"
    using that store_choice_next by blast
  show "colors_page (user_data (fst (color_choice ev w)) (effective_user ev)) = Some (p - 1)"
    if "payload ev = CallbackQuery ''color_prev_page''
      \<and> colors_page (user_data w (effective_user ev)) = Some p"
    using that color_choice_prev by blast
  show "colors_page (user_data (fst (color_choice ev w)) (effective_user ev)) = Some (p + 1)"
    if "payload ev = CallbackQuery ''color_next_page''
      \<and> colors_page (user_data w (effective_user ev)) = Some p"
    using that color_choice_next by blast
  show "recipients_page (user_data (fst (recipient_choice ev w)) (effective_user ev)) = Some (p - 1)"
    if "payload ev = CallbackQuery ''recipient_prev_page''
      \<and> recipients_page (user_data w (effective_user ev)) = Some p"
    using that recipient_choice_prev by blast
  show "recipients_page (user_data (fst (recipient_choice ev w)) (effective_user ev)) = Some (p + 1)"
    if "payload ev = CallbackQuery ''recipient_next_page''
      \<and> recipients_page (user_data w (effective_user ev)) = Some p"
    using that recipient_choice_next by blast
next
  assume h: "stores (excel_data w) = Some df \<and> stores_page (user_data w (effective_user ev)) = Some p
      \<and> show_stores_page ev w = Inr w'"
  then have a: "stores (excel_data w) = Some df"
    and b: "stores_page (user_data w (effective_user ev)) = Some p"
    and c: "show_stores_page ev w = Inr w'" by simp_all
  show "(Button Previous ''store_prev_page'' \<in> set (menu_buttons w')) = (0 < p)"
    by (rule show_stores_page_offers(1) [OF a b c])
  show "(Button Next ''store_next_page'' \<in> set (menu_buttons w'))
          = (p < total_pages (int (length df)) - 1)"
    by (rule show_stores_page_offers(2) [OF a b c])
  show "\<exists>p'. stores_page (user_data (fst (store_choice ev' w')) (effective_user ev)) = Some p'
               \<and> 0 \<le> p' \<and> p' < total_pages (int (length df))"
    if "0 \<le> p \<and> p < total_pages (int (length df)) \<and> effective_user ev' = effective_user ev
          \<and> (payload ev' = CallbackQuery ''store_prev_page''
                \<and> Button Previous ''store_prev_page'' \<in> set (menu_buttons w')
              \<or> payload ev' = CallbackQuery ''store_next_page''
                \<and> Button Next ''store_next_page'' \<in> set (menu_buttons w'))"
    using that by (intro store_choice_offered_press [OF a b _ _ c]) simp_all
next
  assume h: "colors (excel_data w) = Some df \<and> colors_page (user_data w (effective_user ev)) = Some p
      \<and> show_colors_page ev w = Inr w'"
  then have a: "colors (excel_data w) = Some df"
    and b: "colors_page (user_data w (effective_user ev)) = Some p"
    and c: "show_colors_page ev w = Inr w'" by simp_all
  show "(Button Previous ''color_prev_page'' \<in> set (menu_buttons w')) = (0 < p)"
    by (rule show_colors_page_offers(1) [OF a b c])
  show "(Button Next ''color_next_page'' \<in> set (menu_buttons w'))
          = (p < total_pages (int (length df)) - 1)"
    by (rule show_colors_page_offers(2) [OF a b c])
  show "\<exists>p'. colors_page (user_data (fst (color_choice ev' w')) (effective_user ev)) = Some p'
               \<and> 0 \<le> p' \<and> p' < total_pages (int (length df))"
    if "0 \<le> p \<and> p < total_pages (int (length df)) \<and> effective_user ev' = effective_user ev
          \<and> (payload ev' = CallbackQuery ''color_prev_page''
                \<and> Button Previous ''color_prev_page'' \<in> set (menu_buttons w')
              \<or> payload ev' = CallbackQuery ''color_next_page''
                \<and> Button Next ''color_next_page'' \<in> set (menu_buttons w'))"
    using that by (intro color_choice_offered_press [OF a b _ _ c]) simp_all
next
  assume h: "recipients (excel_data w) = Some df
      \<and> recipients_page (user_data w (effective_user ev)) = Some p
      \<and> show_recipients_page ev w = Inr w'"
  then have a: "recipients (excel_data w) = Some df"
    and b: "recipients_page (user_data w (effective_user ev)) = Some p"
    and c: "show_recipients_page ev w = Inr w'" by simp_all
  show "(Button Previous ''recipient_prev_page'' \<in> set (menu_buttons w')) = (0 < p)"
    by (rule show_recipients_page_offers(1) [OF a b c])
  show "(Button Next ''recipient_next_page'' \<in> set (menu_buttons w'))
          = (p < total_pages (int (length df)) - 1)"
    by (rule show_recipients_page_offers(2) [OF a b c])
  show "\<exists>p'. recipients_page (user_data (fst (recipient_choice ev' w')) (effective_user ev))
                 = Some p'
               \<and> 0 \<le> p' \<and> p' < total_pages (int (length df))"
    if "0 \<le> p \<and> p < total_pages (int (length df)) \<and> effective_user ev' = effective_user ev
          \<and> (payload ev' = CallbackQuery ''recipient_prev_page''
                \<and> Button Previous ''recipient_prev_page'' \<in> set (menu_buttons w')
              \<or> payload ev' = CallbackQuery ''recipient_next_page''
                \<and> Button Next ''recipient_next_page'' \<in> set (menu_buttons w'))"
    using that by (intro recipient_choice_offered_press [OF a b _ _ c]) simp_all
qed

theorem navigation_moves_one_page_witness:
  "(\<exists>w'. show_stores_page (demo_press ''store_next_page'') (demo_world_at 1 CHOOSE_STORE) = Inr w'
      \<and> total_pages (int (length demo_sheet)) = 2
      \<and> Button Previous ''store_prev_page'' \<in> set (menu_buttons w')
      \<and> Button Next ''store_next_page'' \<notin> set (menu_buttons w')
      \<and> stores_page (user_data (fst (store_choice (demo_press ''store_prev_page'') w')) 7) = Some 0)
   \<and> (\<exists>w'. show_recipients_page (demo_text ''Save to file'') (demo_world_at 0 NEXT_ACTION) = Inr w'
      \<and> Button Previous ''recipient_prev_page'' \<notin> set (menu_buttons w')
      \<and> Button Next ''recipient_next_page'' \<in> set (menu_buttons w')
      \<and> (\<exists>p'. recipients_page
                 (user_data (fst (recipient_choice (demo_press ''recipient_next_page'') w')) 7)
               = Some p' \<and> 0 \<le> p' \<and> p' < 2))"
proof -
  have tp: "total_pages (int (length demo_sheet)) = 2"
    by (simp add: demo_sheet_length total_pages_def ITEMS_PER_PAGE_def)
  obtain w1 where w1: "show_stores_page (demo_press ''store_next_page'')
      (demo_world_at 1 CHOOSE_STORE) = Inr w1"
    using show_stores_page_shown [of "demo_world_at 1 CHOOSE_STORE" demo_sheet
        "demo_press ''store_next_page''" 1] tp
    by auto
  obtain msg m where e1: "w1 = send_page (demo_press ''store_next_page'') msg m
      (demo_world_at 1 CHOOSE_STORE)"
    using show_stores_page_sends [OF w1] by blast
  obtain kb where "recipient_rows demo_sheet (page_range 0 12) = Inr kb"
    using demo_recipient_rows by blast
  then obtain w2 where w2: "show_recipients_page (demo_text ''Save to file'')
      (demo_world_at 0 NEXT_ACTION) = Inr w2"
    by (simp add: show_recipients_page_def page_or_zero_def Let_def demo_sheet_length)
  have first: "show_stores_page (demo_press ''store_next_page'') (demo_world_at 1 CHOOSE_STORE) = Inr w1
      \<and> total_pages (int (length demo_sheet)) = 2
      \<and> Button Previous ''store_prev_page'' \<in> set (menu_buttons w1)
      \<and> Button Next ''store_next_page'' \<notin> set (menu_buttons w1)
      \<and> stores_page (user_data (fst (store_choice (demo_press ''store_prev_page'') w1)) 7) = Some 0"
    using w1 tp
      navigation_moves_one_page [of "demo_press ''store_next_page''"
        "demo_world_at 1 CHOOSE_STORE" 1 demo_sheet w1 "demo_press ''store_prev_page''"]
      navigation_moves_one_page [of "demo_press ''store_prev_page''" w1 1]
    by (simp add: e1)
  have second: "show_recipients_page (demo_text ''Save to file'') (demo_world_at 0 NEXT_ACTION) = Inr w2
      \<and> Button Previous ''recipient_prev_page'' \<notin> set (menu_buttons w2)
      \<and> Button Next ''recipient_next_page'' \<in> set (menu_buttons w2)
      \<and> (\<exists>p'. recipients_page
                 (user_data (fst (recipient_choice (demo_press ''recipient_next_page'') w2)) 7)
               = Some p' \<and> 0 \<le> p' \<and> p' < 2)"
    using w2 tp
      navigation_moves_one_page [of "demo_text ''Save to file''"
        "demo_world_at 0 NEXT_ACTION" 0 demo_sheet w2 "demo_press ''recipient_next_page''"]
    by simp
  show ?thesis using first second by blast
qed

end
